theory Spec2Isabelle
  imports Complex_Main "HOL-Library.List_Lexorder" "HOL-Library.Char_ord" "HOL-Library.Sublist"
begin

section \<open>Python values shared by the components\<close>

text \<open>
  The exceptions of the source that a claim depends on. A function that can raise
  returns \<open>py_error + 'a\<close>, with \<open>Inl\<close> for the exception.
\<close>

datatype py_error =
    AttributeError string
  | OverflowError
  | ZeroDivisionError
  | ValueError
  | IndexError
  | TypeError
  | KeyError string

text \<open>\<^verbatim>\<open>str(n)\<close> for an integer: decimal digits, with a leading minus sign.\<close>

fun str_nat :: "nat \<Rightarrow> string" where
  "str_nat n = (if n < 10 then [char_of (48 + n)] else str_nat (n div 10) @ [char_of (48 + n mod 10)])"

declare str_nat.simps [simp del]

definition str_int :: "int \<Rightarrow> string" where
  "str_int i = (if i < 0 then CHR ''-'' # str_nat (nat (- i)) else str_nat (nat i))"

text \<open>\<^verbatim>\<open>needle in haystack\<close> for strings: a contiguous occurrence.\<close>

fun contains :: "string \<Rightarrow> string \<Rightarrow> bool" where
  "contains needle [] = (needle = [])"
| "contains needle (c # cs) = (prefix needle (c # cs) \<or> contains needle cs)"

text \<open>
  \<^verbatim>\<open>xs.sort(key=k, reverse=True)\<close>: a stable sort into descending key order; elements
  with equal keys keep their order. The first argument says that the key of its first
  argument is greater than the key of its second.
\<close>

fun insert_desc :: "('a \<Rightarrow> 'a \<Rightarrow> bool) \<Rightarrow> 'a \<Rightarrow> 'a list \<Rightarrow> 'a list" where
  "insert_desc gt x [] = [x]"
| "insert_desc gt x (y # ys) = (if gt y x then y # insert_desc gt x ys else x # y # ys)"

definition sort_reverse :: "('a \<Rightarrow> 'a \<Rightarrow> bool) \<Rightarrow> 'a list \<Rightarrow> 'a list" where
  "sort_reverse gt xs = foldr (insert_desc gt) xs []"

text \<open>
  A Python \<^verbatim>\<open>set\<close> built from a list is a list without repetitions; the order in
  which Python iterates over a set is unspecified, and the properties below only speak
  about membership and size.
\<close>

definition py_set :: "'a list \<Rightarrow> 'a list" where
  "py_set xs = remdups xs"

definition set_difference :: "'a list \<Rightarrow> 'a list \<Rightarrow> 'a list" where
  "set_difference xs ys = filter (\<lambda>x. x \<notin> set ys) xs"

definition set_intersection :: "'a list \<Rightarrow> 'a list \<Rightarrow> 'a list" where
  "set_intersection xs ys = filter (\<lambda>x. x \<in> set ys) xs"

section \<open>Complete-Chain Mapper: the validity gate for shares-outstanding data\<close>

text \<open>
  Source: \<^verbatim>\<open>pipeline/04_complete_cusip_mapping.py\<close>, method
  \<^verbatim>\<open>CompleteCUSIPMapper.is_valid_shares_data\<close>.

  The method calls two library functions whose code is not part of the repository:
  \<^verbatim>\<open>datetime.now()\<close> and \<^verbatim>\<open>datetime.fromisoformat\<close>. Both are parameters of the
  model. A naive datetime is the number of microseconds since 0001-01-01T00:00:00, so
  that \<^verbatim>\<open>(a - b).days\<close> is the floor of the difference divided by one day.

  The outcome of \<^verbatim>\<open>datetime.fromisoformat\<close> is one of: it raises
  \<^verbatim>\<open>ValueError\<close>; it returns a naive datetime; it returns a timezone-aware datetime
  (given by its instant in UTC, in the same unit; then \<^verbatim>\<open>datetime.now() - date_obj\<close>
  raises \<^verbatim>\<open>TypeError\<close>). The bare \<^verbatim>\<open>except: pass\<close> of the source swallows both
  exceptions.
\<close>

datatype fromisoformat_result = Raises_ValueError | Naive int | Aware int

datatype validity_reason =
    Placeholder_value
  | Too_few_shares
  | Stale_data int
  | Data_too_old string
  | No_date_information
  | Valid

definition microseconds_per_day :: int where
  "microseconds_per_day = 86400000000"

text \<open>\<^verbatim>\<open>(datetime.now() - date_obj).days\<close>\<close>

definition timedelta_days :: "int \<Rightarrow> int \<Rightarrow> int" where
  "timedelta_days now date_obj = (now - date_obj) div microseconds_per_day"

text \<open>\<^verbatim>\<open>shares_date.split('T')[0]\<close>: the text before the first \<^verbatim>\<open>T\<close>.\<close>

definition split_T_0 :: "string \<Rightarrow> string" where
  "split_T_0 s = takeWhile (\<lambda>c. c \<noteq> CHR ''T'') s"

definition placeholder_values :: "int list" where
  "placeholder_values = [1, 10, 12, 100, 1000, 10000]"

text \<open>
  The date argument is \<open>None\<close> for Python's \<^verbatim>\<open>None\<close>; \<^verbatim>\<open>if shares_date:\<close> is
  false for \<^verbatim>\<open>None\<close> and for the empty string.
\<close>

definition is_valid_shares_data ::
  "(string \<Rightarrow> fromisoformat_result) \<Rightarrow> int \<Rightarrow> int \<Rightarrow> string option \<Rightarrow> bool \<times> validity_reason" where
  "is_valid_shares_data fromisoformat now shares_outstanding shares_date =
     (if shares_outstanding \<in> set placeholder_values then (False, Placeholder_value)
      else if shares_outstanding < 100000 then (False, Too_few_shares)
      else (case shares_date of
              None \<Rightarrow> (False, No_date_information)
            | Some s \<Rightarrow>
                if s = [] then (False, No_date_information)
                else (case fromisoformat (split_T_0 s) of
                        Raises_ValueError \<Rightarrow> (True, Valid)
                      | Aware instant \<Rightarrow> (True, Valid)
                      | Naive date_obj \<Rightarrow>
                          (let days_old = timedelta_days now date_obj in
                           if days_old > 365 then (False, Stale_data days_old)
                           else if s < ''2024-07-01'' then (False, Data_too_old s)
                           else (True, Valid)))))"

text \<open>
  The rendering \<^verbatim>\<open>YYYY-MM-DD\<close> of a calendar date, the form every version of
  \<^verbatim>\<open>datetime.fromisoformat\<close> accepts and \<^verbatim>\<open>date.isoformat\<close> produces.
\<close>

definition digit_char :: "nat \<Rightarrow> char" where
  "digit_char n = char_of (48 + n mod 10)"

definition isoformat_date :: "nat \<Rightarrow> nat \<Rightarrow> nat \<Rightarrow> string" where
  "isoformat_date y m d =
     [digit_char (y div 1000), digit_char (y div 100), digit_char (y div 10), digit_char y,
      CHR ''-'', digit_char (m div 10), digit_char m,
      CHR ''-'', digit_char (d div 10), digit_char d]"

text \<open>Calendar order on (year, month, day).\<close>

definition date_before :: "nat \<times> nat \<times> nat \<Rightarrow> nat \<times> nat \<times> nat \<Rightarrow> bool" where
  "date_before a b =
     (case a of (y, m, d) \<Rightarrow> case b of (y', m', d') \<Rightarrow>
        y < y' \<or> (y = y' \<and> (m < m' \<or> (m = m' \<and> d < d'))))"


text \<open>
  A stand-in for \<^verbatim>\<open>datetime.fromisoformat\<close> on the strings used in the examples
  below, with the values CPython 3.11 returns for them (microseconds since 0001-01-01): a
  calendar date at midnight for the three dates written \<^verbatim>\<open>YYYY-MM-DD\<close> and for the
  date written \<^verbatim>\<open>YYYYMMDD\<close>, a timezone-aware datetime for the string with a UTC
  offset, \<^verbatim>\<open>ValueError\<close> otherwise.
\<close>

definition fromisoformat_sample :: "string \<Rightarrow> fromisoformat_result" where
  "fromisoformat_sample s =
     (if s = ''2024-08-01'' then Naive 63858067200000000
      else if s = ''2024-07-01'' then Naive 63855388800000000
      else if s = ''2023-01-01'' then Naive 63808128000000000
      else if s = ''20240630'' then Naive 63855302400000000
      else if s = ''2023-01-01 00:00:00+00:00'' then Aware 63808128000000000
      else Raises_ValueError)"

text \<open>\<^verbatim>\<open>datetime(2025, 1, 15, 12, 0, 0)\<close> in the same unit.\<close>

definition now_sample :: int where
  "now_sample = 63872539200000000"

section \<open>Python floats\<close>

text \<open>
  A Python \<^verbatim>\<open>float\<close> is an IEEE 754 binary64 number. A finite one is the rational it
  denotes; arithmetic rounds the exact result to the nearest representable number, ties to
  the even significand (53 bits, least exponent \<open>-1074\<close>), and a rounded magnitude of
  \<open>2 ^ 1024\<close> or more overflows.
\<close>

datatype pyfloat = Finite rat | PosInf | NegInf

fun bit_length :: "nat \<Rightarrow> nat" where
  "bit_length n = (if n = 0 then 0 else Suc (bit_length (n div 2)))"

declare bit_length.simps [simp del]

definition pow2 :: "int \<Rightarrow> rat" where
  "pow2 e = (if 0 \<le> e then 2 ^ nat e else 1 / 2 ^ nat (- e))"

text \<open>For \<open>x > 0\<close>: the integer \<open>k\<close> with \<open>2 ^ k \<le> x < 2 ^ (k + 1)\<close>.\<close>

definition floor_log2 :: "rat \<Rightarrow> int" where
  "floor_log2 x =
     (if 1 \<le> x then int (bit_length (nat \<lfloor>x\<rfloor>)) - 1
      else (let t = 1 / x; k = int (bit_length (nat \<lfloor>t\<rfloor>)) - 1
            in if t = pow2 k then - k else - k - 1))"

definition round_half_even :: "rat \<Rightarrow> int" where
  "round_half_even x =
     (let f = \<lfloor>x\<rfloor>; r = x - of_int f
      in if r < 1 / 2 then f else if 1 / 2 < r then f + 1 else if even f then f else f + 1)"

definition round_double :: "rat \<Rightarrow> rat" where
  "round_double x =
     (if x = 0 then 0
      else (let e = max (floor_log2 \<bar>x\<bar> - 52) (- 1074)
            in sgn x * of_int (round_half_even (\<bar>x\<bar> / pow2 e)) * pow2 e))"

text \<open>
  \<^verbatim>\<open>a / b\<close> for two Python integers: the correctly rounded quotient;
  \<^verbatim>\<open>ZeroDivisionError\<close> for a zero divisor, \<^verbatim>\<open>OverflowError\<close> when the quotient is
  too large for a float.
\<close>

definition int_truediv :: "int \<Rightarrow> int \<Rightarrow> py_error + pyfloat" where
  "int_truediv a b =
     (if b = 0 then Inl ZeroDivisionError
      else (let r = round_double (of_int a / of_int b)
            in if 2 ^ 1024 \<le> \<bar>r\<bar> then Inl OverflowError else Inr (Finite r)))"

text \<open>\<^verbatim>\<open>x * 100\<close> for a float \<open>x\<close>: the product overflows to an infinity, it does not raise.\<close>

definition float_times_100 :: "pyfloat \<Rightarrow> pyfloat" where
  "float_times_100 x =
     (case x of
        Finite q \<Rightarrow>
          (let r = round_double (q * 100)
           in if 2 ^ 1024 \<le> r then PosInf else if r \<le> - (2 ^ 1024) then NegInf else Finite r)
      | PosInf \<Rightarrow> PosInf
      | NegInf \<Rightarrow> NegInf)"

text \<open>\<^verbatim>\<open>x > n\<close> for a float \<open>x\<close> and an integer \<open>n\<close>: Python compares the exact values.\<close>

definition float_gt_int :: "pyfloat \<Rightarrow> int \<Rightarrow> bool" where
  "float_gt_int x n = (case x of Finite q \<Rightarrow> of_int n < q | PosInf \<Rightarrow> True | NegInf \<Rightarrow> False)"

definition float_gt :: "pyfloat \<Rightarrow> pyfloat \<Rightarrow> bool" where
  "float_gt x y =
     (case x of
        PosInf \<Rightarrow> y \<noteq> PosInf
      | NegInf \<Rightarrow> False
      | Finite p \<Rightarrow> (case y of Finite q \<Rightarrow> q < p | PosInf \<Rightarrow> False | NegInf \<Rightarrow> True))"

section \<open>Filing Analyzer\<close>

text \<open>
  Source: \<^verbatim>\<open>pipeline/05_analyze_net_adds.py\<close>, class \<^verbatim>\<open>Filing13FAnalyzer\<close>.
  Share counts and values are Python integers (\<^verbatim>\<open>int(shares_elem.text)\<close>, summed).
\<close>

subsection \<open>Percent of shares outstanding: the loop of \<^verbatim>\<open>calculate_metrics\<close>\<close>

text \<open>
  A value of \<^verbatim>\<open>self.current_holdings\<close> after enrichment. The keys
  \<^verbatim>\<open>ticker\<close>, \<^verbatim>\<open>float_shares\<close>, \<^verbatim>\<open>held_pct_institutions\<close> and
  \<^verbatim>\<open>held_pct_insiders\<close> are copied to the output and read by nothing modelled here;
  they are left out. \<open>h_shares_outstanding\<close> is \<open>None\<close> when the key is absent or
  holds \<^verbatim>\<open>None\<close>.
\<close>

record position =
  pos_shares :: int
  pos_value :: int

record position_pct =
  pp_shares :: int
  pp_value :: int
  pp_pct_of_company_shares :: pyfloat

record holding =
  h_name :: string
  h_shares :: int
  h_value :: int
  h_holders :: "string list"
  h_positions :: "(string \<times> position) list"
  h_shares_outstanding :: "int option"

text \<open>An entry of \<^verbatim>\<open>total_holdings_pct\<close>.\<close>

record holdings_pct =
  hp_cusip :: string
  hp_name :: string
  hp_shares :: int
  hp_value :: int
  hp_shares_outstanding :: int
  hp_pct_of_shares :: pyfloat
  hp_num_holders :: nat
  hp_holders :: "string list"
  hp_positions :: "(string \<times> position_pct) list"

text \<open>\<^verbatim>\<open>(data['shares'] / shares_outstanding) * 100\<close>\<close>

definition pct_of_shares_outstanding :: "int \<Rightarrow> int \<Rightarrow> py_error + pyfloat" where
  "pct_of_shares_outstanding held outstanding =
     (case int_truediv held outstanding of
        Inl e \<Rightarrow> Inl e
      | Inr q \<Rightarrow> Inr (float_times_100 q))"

text \<open>The inner loop over \<^verbatim>\<open>data.get('positions', {}).items()\<close>.\<close>

fun positions_with_pct ::
  "int \<Rightarrow> (string \<times> position) list \<Rightarrow> py_error + (string \<times> position_pct) list" where
  "positions_with_pct outstanding [] = Inr []"
| "positions_with_pct outstanding ((inst_name, inst_position) # rest) =
     (case pct_of_shares_outstanding (pos_shares inst_position) outstanding of
        Inl e \<Rightarrow> Inl e
      | Inr inst_pct \<Rightarrow>
          (case positions_with_pct outstanding rest of
             Inl e \<Rightarrow> Inl e
           | Inr rest' \<Rightarrow>
               Inr ((inst_name,
                     \<lparr>pp_shares = pos_shares inst_position, pp_value = pos_value inst_position,
                      pp_pct_of_company_shares = inst_pct\<rparr>) # rest')))"

text \<open>
  The loop over \<^verbatim>\<open>self.current_holdings.items()\<close>. The result is the list
  \<^verbatim>\<open>total_holdings_pct\<close> in the order of the appends and \<^verbatim>\<open>unmapped_count\<close>;
  an exception raised in the body leaves the method.
\<close>

fun metrics_loop :: "(string \<times> holding) list \<Rightarrow> py_error + (holdings_pct list \<times> nat)" where
  "metrics_loop [] = Inr ([], 0)"
| "metrics_loop ((cusip_key, data) # rest) =
     (case h_shares_outstanding data of
        None \<Rightarrow>
          (case metrics_loop rest of
             Inl e \<Rightarrow> Inl e
           | Inr (acc, unmapped_count) \<Rightarrow> Inr (acc, unmapped_count + 1))
      | Some outstanding \<Rightarrow>
          if outstanding \<noteq> 0 \<and> outstanding > 0 then
            (case pct_of_shares_outstanding (h_shares data) outstanding of
               Inl e \<Rightarrow> Inl e
             | Inr pct \<Rightarrow>
                 if float_gt_int pct 101 then metrics_loop rest
                 else
                   (case positions_with_pct outstanding (h_positions data) of
                      Inl e \<Rightarrow> Inl e
                    | Inr with_pct \<Rightarrow>
                        (case metrics_loop rest of
                           Inl e \<Rightarrow> Inl e
                         | Inr (acc, unmapped_count) \<Rightarrow>
                             Inr (\<lparr>hp_cusip = cusip_key, hp_name = h_name data, hp_shares = h_shares data,
                                   hp_value = h_value data, hp_shares_outstanding = outstanding,
                                   hp_pct_of_shares = pct, hp_num_holders = length (h_holders data),
                                   hp_holders = h_holders data, hp_positions = with_pct\<rparr> # acc,
                                  unmapped_count))))
          else
            (case metrics_loop rest of
               Inl e \<Rightarrow> Inl e
             | Inr (acc, unmapped_count) \<Rightarrow> Inr (acc, unmapped_count + 1)))"

text \<open>
  \<^verbatim>\<open>total_holdings_pct\<close> as \<^verbatim>\<open>calculate_metrics\<close> returns it: the accepted
  entries, sorted by descending percentage.
\<close>

definition total_holdings_pct :: "(string \<times> holding) list \<Rightarrow> py_error + holdings_pct list" where
  "total_holdings_pct current_holdings =
     (case metrics_loop current_holdings of
        Inl e \<Rightarrow> Inl e
      | Inr (acc, unmapped_count) \<Rightarrow>
          Inr (sort_reverse (\<lambda>a b. float_gt (hp_pct_of_shares a) (hp_pct_of_shares b)) acc))"

text \<open>
  The examples of the specification: one security with 1,050,000 of 1,000,000 shares held,
  one with 1,010,000 of 1,000,000.
\<close>

definition cap_sample :: "(string \<times> holding) list" where
  "cap_sample =
     [(''111111111'',
       \<lparr>h_name = ''OVER THE CAP INC'', h_shares = 1050000, h_value = 2100000,
        h_holders = [''Institution A''],
        h_positions = [(''Institution A'', \<lparr>pos_shares = 1050000, pos_value = 2100000\<rparr>)],
        h_shares_outstanding = Some 1000000\<rparr>),
      (''222222222'',
       \<lparr>h_name = ''AT THE CAP INC'', h_shares = 1010000, h_value = 2020000,
        h_holders = [''Institution A''],
        h_positions = [(''Institution A'', \<lparr>pos_shares = 1010000, pos_value = 2020000\<rparr>)],
        h_shares_outstanding = Some 1000000\<rparr>)]"

subsection \<open>Quarter-over-quarter net additions: \<^verbatim>\<open>calculate_quarterly_net_adds\<close>\<close>

text \<open>
  One element of the \<^verbatim>\<open>securities\<close> array of the prior quarter's
  \<^verbatim>\<open>total_holdings_data.json\<close>. A field is \<open>None\<close> when the key is absent (the
  source reads each with \<^verbatim>\<open>.get\<close> and a default). A position of the file has the
  keys that \<^verbatim>\<open>calculate_metrics\<close> wrote.
\<close>

record json_security =
  js_cusip :: "string option"
  js_shares_held :: "int option"
  js_value_usd :: "int option"
  js_holders :: "string list option"
  js_positions :: "(string \<times> position_pct) list option"

text \<open>A value of the lookup map \<^verbatim>\<open>prev_positions_by_cusip\<close>.\<close>

record prev_security =
  prev_sec_shares :: int
  prev_sec_value :: int
  prev_sec_holders :: "string list"
  prev_sec_positions :: "(string \<times> position_pct) list"

definition get_default :: "'a \<Rightarrow> 'a option \<Rightarrow> 'a" where
  "get_default d v = (case v of None \<Rightarrow> d | Some x \<Rightarrow> x)"

text \<open>
  The loop that fills \<^verbatim>\<open>prev_positions_by_cusip\<close>; \<^verbatim>\<open>if cusip:\<close> skips an absent
  and an empty CUSIP, and a later element replaces an earlier one with the same CUSIP.
\<close>

definition prev_positions_by_cusip :: "json_security list \<Rightarrow> (string \<rightharpoonup> prev_security)" where
  "prev_positions_by_cusip securities =
     foldl (\<lambda>m security.
              case js_cusip security of
                None \<Rightarrow> m
              | Some c \<Rightarrow>
                  if c = [] then m
                  else m(c \<mapsto> \<lparr>prev_sec_shares = get_default 0 (js_shares_held security),
                                prev_sec_value = get_default 0 (js_value_usd security),
                                prev_sec_holders = py_set (get_default [] (js_holders security)),
                                prev_sec_positions = get_default [] (js_positions security)\<rparr>))
           Map.empty securities"

text \<open>The default of \<^verbatim>\<open>prev_positions_by_cusip.get(cusip, {...})\<close>.\<close>

definition no_prev_security :: prev_security where
  "no_prev_security =
     \<lparr>prev_sec_shares = 0, prev_sec_value = 0, prev_sec_holders = [], prev_sec_positions = []\<rparr>"

text \<open>\<^verbatim>\<open>positions.get(inst_name, {'shares': 0}).get('shares', 0)\<close>\<close>

definition position_shares :: "(string \<times> position_pct) list \<Rightarrow> string \<Rightarrow> int" where
  "position_shares ps inst_name = (case map_of ps inst_name of None \<Rightarrow> 0 | Some p \<Rightarrow> pp_shares p)"

record institution_change =
  ic_shares_change :: int
  ic_prev_shares :: int
  ic_current_shares :: int

text \<open>The three loops that fill \<^verbatim>\<open>institution_changes\<close>, in the order of the source.\<close>

definition continuing_changes ::
  "(string \<times> position_pct) list \<Rightarrow> (string \<times> position_pct) list \<Rightarrow> string list \<Rightarrow>
   (string \<rightharpoonup> institution_change) \<Rightarrow> (string \<rightharpoonup> institution_change)" where
  "continuing_changes current_positions prev_positions insts changes =
     foldl (\<lambda>m inst_name.
              let shares_diff = position_shares current_positions inst_name
                                - position_shares prev_positions inst_name
              in if shares_diff \<noteq> 0
                 then m(inst_name \<mapsto>
                        \<lparr>ic_shares_change = shares_diff,
                         ic_prev_shares = position_shares prev_positions inst_name,
                         ic_current_shares = position_shares current_positions inst_name\<rparr>)
                 else m)
           changes insts"

definition new_holder_changes ::
  "(string \<times> position_pct) list \<Rightarrow> string list \<Rightarrow>
   (string \<rightharpoonup> institution_change) \<Rightarrow> (string \<rightharpoonup> institution_change)" where
  "new_holder_changes current_positions insts changes =
     foldl (\<lambda>m inst_name.
              m(inst_name \<mapsto>
                \<lparr>ic_shares_change = position_shares current_positions inst_name,
                 ic_prev_shares = 0,
                 ic_current_shares = position_shares current_positions inst_name\<rparr>))
           changes insts"

definition dropped_holder_changes ::
  "(string \<times> position_pct) list \<Rightarrow> string list \<Rightarrow>
   (string \<rightharpoonup> institution_change) \<Rightarrow> (string \<rightharpoonup> institution_change)" where
  "dropped_holder_changes prev_positions insts changes =
     foldl (\<lambda>m inst_name.
              m(inst_name \<mapsto>
                \<lparr>ic_shares_change = - position_shares prev_positions inst_name,
                 ic_prev_shares = position_shares prev_positions inst_name,
                 ic_current_shares = 0\<rparr>))
           changes insts"

text \<open>
  An entry of \<^verbatim>\<open>quarterly_adds\<close>: the copy of the current security and the keys the
  loop adds to it.
\<close>

record quarterly_add =
  qa_security :: holdings_pct
  qa_shares_change :: int
  qa_value_change :: int
  qa_net_institutional_change :: int
  qa_net_adds :: int
  qa_new_holders :: "string list"
  qa_dropped_holders :: "string list"
  qa_institution_changes :: "string \<rightharpoonup> institution_change"
  qa_prev_shares :: int
  qa_prev_value :: int
  qa_prev_num_holders :: nat

text \<open>The body of the loop over \<^verbatim>\<open>current_holdings_pct\<close>.\<close>

definition quarterly_add_of :: "(string \<rightharpoonup> prev_security) \<Rightarrow> holdings_pct \<Rightarrow> quarterly_add" where
  "quarterly_add_of by_cusip security =
     (let current_holders = py_set (hp_holders security);
          current_positions = hp_positions security;
          prev_security = get_default no_prev_security (by_cusip (hp_cusip security));
          prev_holders = prev_sec_holders prev_security;
          prev_positions = prev_sec_positions prev_security;
          shares_change = hp_shares security - prev_sec_shares prev_security;
          value_change = hp_value security - prev_sec_value prev_security;
          new_holders = set_difference current_holders prev_holders;
          dropped_holders = set_difference prev_holders current_holders;
          net_institutional_change = int (length new_holders) - int (length dropped_holders);
          institution_changes =
            dropped_holder_changes prev_positions dropped_holders
              (new_holder_changes current_positions new_holders
                 (continuing_changes current_positions prev_positions
                    (set_intersection current_holders prev_holders) Map.empty))
      in \<lparr>qa_security = security,
          qa_shares_change = shares_change,
          qa_value_change = value_change,
          qa_net_institutional_change = net_institutional_change,
          qa_net_adds = net_institutional_change,
          qa_new_holders = new_holders,
          qa_dropped_holders = dropped_holders,
          qa_institution_changes = institution_changes,
          qa_prev_shares = prev_sec_shares prev_security,
          qa_prev_value = prev_sec_value prev_security,
          qa_prev_num_holders = length prev_holders\<rparr>)"

text \<open>
  The part of the method after the prior quarter's file is loaded: \<open>prev_securities\<close> is
  \<^verbatim>\<open>prev_data.get('securities', [])\<close>.
\<close>

definition net_adds_against ::
  "json_security list \<Rightarrow> holdings_pct list \<Rightarrow> quarterly_add list" where
  "net_adds_against prev_securities current_holdings_pct =
     sort_reverse (\<lambda>a b. qa_net_institutional_change a > qa_net_institutional_change b)
       (map (quarterly_add_of (prev_positions_by_cusip prev_securities)) current_holdings_pct)"

subsection \<open>The prior quarter: files, raw filings and the nested run\<close>

text \<open>
  The directory tree under \<^verbatim>\<open>self.filings_dir\<close>: one entry per child; a child that is
  a directory may hold a \<^verbatim>\<open>13F-HR\<close> directory, whose directory children may each hold
  a \<^verbatim>\<open>full-submission.txt\<close> with the given text.
\<close>

record filing_entry =
  fe_is_dir :: bool
  fe_full_submission :: "string option"

record cik_entry =
  ce_is_dir :: bool
  ce_13F_HR :: "filing_entry list option"

definition quarter_end_map :: "string \<Rightarrow> string" where
  "quarter_end_map quarter =
     (if quarter = ''Q1'' then ''0331''
      else if quarter = ''Q2'' then ''0630''
      else if quarter = ''Q3'' then ''0930''
      else if quarter = ''Q4'' then ''1231''
      else ''0630'')"

definition period_marker :: "string \<Rightarrow> int \<Rightarrow> string" where
  "period_marker quarter year =
     ''CONFORMED PERIOD OF REPORT:'' @ [char_of (9 :: nat)] @ str_int year @ quarter_end_map quarter"

text \<open>
  The two nested loops of \<^verbatim>\<open>has_filings_for_quarter\<close>. The result is \<open>Inl True\<close>
  when the tenth matching filing makes the method return at once, and otherwise
  \<open>Inr filing_count\<close> after the loop.
\<close>

fun scan_filing_dirs :: "string \<Rightarrow> filing_entry list \<Rightarrow> nat \<Rightarrow> bool + nat" where
  "scan_filing_dirs marker [] filing_count = Inr filing_count"
| "scan_filing_dirs marker (filing_dir # rest) filing_count =
     (if \<not> fe_is_dir filing_dir then scan_filing_dirs marker rest filing_count
      else (case fe_full_submission filing_dir of
              None \<Rightarrow> scan_filing_dirs marker rest filing_count
            | Some text \<Rightarrow>
                if contains marker (take 10000 text)
                then (if filing_count + 1 \<ge> 10 then Inl True
                      else scan_filing_dirs marker rest (filing_count + 1))
                else scan_filing_dirs marker rest filing_count))"

fun scan_cik_dirs :: "string \<Rightarrow> cik_entry list \<Rightarrow> nat \<Rightarrow> bool + nat" where
  "scan_cik_dirs marker [] filing_count = Inr filing_count"
| "scan_cik_dirs marker (cik_dir # rest) filing_count =
     (if \<not> ce_is_dir cik_dir then scan_cik_dirs marker rest filing_count
      else (case ce_13F_HR cik_dir of
              None \<Rightarrow> scan_cik_dirs marker rest filing_count
            | Some filing_dirs \<Rightarrow>
                (case scan_filing_dirs marker filing_dirs filing_count of
                   Inl r \<Rightarrow> Inl r
                 | Inr filing_count' \<Rightarrow> scan_cik_dirs marker rest filing_count')))"

definition has_filings_for_quarter :: "cik_entry list \<Rightarrow> string \<Rightarrow> int \<Rightarrow> bool" where
  "has_filings_for_quarter filings_dir quarter year =
     (case scan_cik_dirs (period_marker quarter year) filings_dir 0 of
        Inl r \<Rightarrow> r
      | Inr filing_count \<Rightarrow> filing_count > 0)"

text \<open>
  The attributes of a \<^verbatim>\<open>Filing13FAnalyzer\<close> instance: the methods the class defines
  and the attributes \<^verbatim>\<open>__init__\<close> sets. The class defines no \<^verbatim>\<open>__getattr__\<close>, so
  looking up any other name raises \<^verbatim>\<open>AttributeError\<close>.
\<close>

definition Filing13FAnalyzer_attributes :: "string list" where
  "Filing13FAnalyzer_attributes =
     [''__init__'', ''load_cik_metadata'', ''load_filing_metadata'', ''is_amendment_filing'',
      ''extract_filing_period'', ''extract_company_name_from_filing'', ''parse_13f_filing'',
      ''process_all_filings'', ''save_progress'', ''load_progress'', ''save_enriched_holdings'',
      ''load_enriched_holdings'', ''calculate_metrics'', ''has_filings_for_quarter'',
      ''calculate_quarterly_net_adds'', ''generate_markdown_report'', ''generate_json_output'',
      ''run_analysis'',
      ''filings_dir'', ''quarter'', ''year'', ''output_dir'', ''data_dir'', ''progress_file'',
      ''config'', ''filing_metadata'', ''cik_metadata'', ''institution_filing_periods'',
      ''data_enricher'', ''current_holdings'', ''previous_holdings'', ''net_additions'']"

definition lookup_attribute :: "string \<Rightarrow> py_error + unit" where
  "lookup_attribute attr =
     (if attr \<in> set Filing13FAnalyzer_attributes then Inr () else Inl (AttributeError attr))"

text \<open>
  One element of the \<^verbatim>\<open>securities\<close> array that \<^verbatim>\<open>generate_json_output\<close>
  writes for an entry of \<^verbatim>\<open>total_holdings_pct\<close> (the keys the comparison reads).
\<close>

definition json_of_holdings :: "holdings_pct \<Rightarrow> json_security" where
  "json_of_holdings item =
     \<lparr>js_cusip = Some (hp_cusip item), js_shares_held = Some (hp_shares item),
      js_value_usd = Some (hp_value item), js_holders = Some (hp_holders item),
      js_positions = Some (hp_positions item)\<rparr>"

text \<open>
  What the method reads from outside: the parsed \<^verbatim>\<open>securities\<close> of
  \<^verbatim>\<open>output/{quarter}_{year}/total_holdings_data.json\<close> for each (quarter, year) whose
  file exists; the tree of raw filings; the outcome of constructing the nested analyzer and
  running its \<^verbatim>\<open>process_all_filings\<close> (\<open>None\<close> when neither raises); and the list
  that a call of the nested analyzer's \<^verbatim>\<open>analyze_holdings\<close> would return as its
  first component, were there such a method.
\<close>

record analyzer_world =
  w_total_holdings_data :: "string \<times> int \<rightharpoonup> json_security list"
  w_filings_dir :: "cik_entry list"
  w_nested_run_raises :: "py_error option"
  w_nested_total_holdings :: "holdings_pct list"

text \<open>\<^verbatim>\<open>int(self.quarter[1])\<close>\<close>

definition quarter_number :: "string \<Rightarrow> py_error + int" where
  "quarter_number quarter =
     (case quarter of
        _ # c # _ \<Rightarrow>
          if CHR ''0'' \<le> c \<and> c \<le> CHR ''9'' then Inr (int (of_char c) - 48) else Inl ValueError
      | _ \<Rightarrow> Inl IndexError)"

text \<open>
  The result of the method: the list it was given, when no prior filings exist, or the
  list of entries with the comparison keys.
\<close>

datatype net_adds_result =
    Current_unchanged "holdings_pct list"
  | Quarterly_adds "quarterly_add list"

definition calculate_quarterly_net_adds ::
  "analyzer_world \<Rightarrow> string \<Rightarrow> int \<Rightarrow> holdings_pct list \<Rightarrow> py_error + net_adds_result" where
  "calculate_quarterly_net_adds world quarter year current_holdings_pct =
     (case quarter_number quarter of
        Inl e \<Rightarrow> Inl e
      | Inr current_q \<Rightarrow>
          (let prev_quarter = (if current_q > 1 then ''Q'' @ str_int (current_q - 1) else ''Q4'');
               prev_year = (if current_q > 1 then year else year - 1)
           in case w_total_holdings_data world (prev_quarter, prev_year) of
                Some prev_securities \<Rightarrow>
                  Inr (Quarterly_adds (net_adds_against prev_securities current_holdings_pct))
              | None \<Rightarrow>
                  if has_filings_for_quarter (w_filings_dir world) prev_quarter prev_year then
                    (case w_nested_run_raises world of
                       Some e \<Rightarrow> Inl e
                     | None \<Rightarrow>
                         (case lookup_attribute ''analyze_holdings'' of
                            Inl e \<Rightarrow> Inl e
                          | Inr _ \<Rightarrow>
                              Inr (Quarterly_adds
                                     (net_adds_against
                                        (map json_of_holdings (w_nested_total_holdings world))
                                        current_holdings_pct))))
                  else Inr (Current_unchanged current_holdings_pct)))"


definition current_sample :: holdings_pct where
  "current_sample =
     \<lparr>hp_cusip = ''037833100'', hp_name = ''APPLE INC'', hp_shares = 500, hp_value = 80000,
      hp_shares_outstanding = 1000000, hp_pct_of_shares = Finite (1 / 20), hp_num_holders = 1,
      hp_holders = [''Institution B''],
      hp_positions = [(''Institution B'',
                       \<lparr>pp_shares = 500, pp_value = 80000,
                        pp_pct_of_company_shares = Finite (1 / 20)\<rparr>)]\<rparr>"

text \<open>
  A state with no output file for any quarter and one raw filing whose header names the
  period ending 30 June 2025; the nested analyzer's constructor and
  \<^verbatim>\<open>process_all_filings\<close> do not raise.
\<close>

definition prior_missing_world :: analyzer_world where
  "prior_missing_world =
     \<lparr>w_total_holdings_data = Map.empty,
      w_filings_dir =
        [\<lparr>ce_is_dir = True,
          ce_13F_HR = Some [\<lparr>fe_is_dir = True,
                             fe_full_submission =
                               Some (''<SEC-HEADER> CONFORMED PERIOD OF REPORT:''
                                     @ [char_of (9 :: nat)] @ ''20250630 FILED AS OF DATE: 20250814'')\<rparr>]\<rparr>],
      w_nested_run_raises = None,
      w_nested_total_holdings = []\<rparr>"

text \<open>The same state without any raw filing.\<close>

definition nothing_downloaded_world :: analyzer_world where
  "nothing_downloaded_world =
     \<lparr>w_total_holdings_data = Map.empty, w_filings_dir = [],
      w_nested_run_raises = None, w_nested_total_holdings = []\<rparr>"



section \<open>Dashboard: loading the holdings of a quarter\<close>

text \<open>
  Source: \<^verbatim>\<open>app.py\<close>, function \<^verbatim>\<open>load_holdings_data\<close>, up to the list
  \<^verbatim>\<open>filtered_securities\<close> and the three counts written to the metadata. The
  conversion of the list to a data frame and the formatting of its columns come after and
  are not modelled.
\<close>

definition DAYS_PER_QUARTER :: int where
  "DAYS_PER_QUARTER = 92"

text \<open>A value of \<^verbatim>\<open>filing_periods\<close>.\<close>

record filing_period =
  fp_year :: int
  fp_quarter :: int

text \<open>
  An element of \<^verbatim>\<open>data['securities']\<close>: the keys the function reads or writes, and
  the holder keys the analyzer wrote. \<open>ds_positions\<close> is \<open>None\<close> when the key
  \<^verbatim>\<open>positions\<close> is absent; \<open>ds_holder_count\<close> is \<open>None\<close> until the function sets
  the key \<^verbatim>\<open>holder_count\<close>.
\<close>

record dash_security =
  ds_cusip :: string
  ds_num_holders :: nat
  ds_holders :: "string list"
  ds_positions :: "(string \<times> position_pct) list option"
  ds_holder_count :: "nat option"

text \<open>
  \<^verbatim>\<open>CONFIG.get('analysis', {}).get('max_data_age_days', 365)\<close>, with the configuration
  as a dictionary of sections.
\<close>

definition max_age_days_of :: "(string \<times> (string \<times> int) list) list \<Rightarrow> int" where
  "max_age_days_of config =
     get_default 365 (map_of (get_default [] (map_of config ''analysis'')) ''max_data_age_days'')"

text \<open>The body of the loop that fills \<^verbatim>\<open>stale_institutions\<close>, for one institution.\<close>

definition is_stale :: "int \<Rightarrow> int \<Rightarrow> int \<Rightarrow> filing_period \<Rightarrow> bool" where
  "is_stale max_age_days year current_quarter period =
     (if fp_year period < year \<or> (fp_year period = year \<and> fp_quarter period < current_quarter)
      then (let quarters_old = (year - fp_year period) * 4 + (current_quarter - fp_quarter period);
                days_old = quarters_old * DAYS_PER_QUARTER
            in days_old > max_age_days)
      else False)"

definition stale_institutions ::
  "int \<Rightarrow> int \<Rightarrow> int \<Rightarrow> (string \<times> filing_period) list \<Rightarrow> string list" where
  "stale_institutions max_age_days year current_quarter filing_periods =
     py_set (map fst (filter (\<lambda>(inst_name, period). is_stale max_age_days year current_quarter period)
                        filing_periods))"

text \<open>The loop over \<^verbatim>\<open>data['securities']\<close>.\<close>

fun filter_securities :: "string list \<Rightarrow> dash_security list \<Rightarrow> dash_security list" where
  "filter_securities stale [] = []"
| "filter_securities stale (sec # rest) =
     (case ds_positions sec of
        None \<Rightarrow> sec # filter_securities stale rest
      | Some ps \<Rightarrow>
          if ps \<noteq> [] then
            (let filtered_positions = filter (\<lambda>(k, v). k \<notin> set stale) ps
             in if filtered_positions \<noteq> []
                then sec\<lparr>ds_positions := Some filtered_positions,
                         ds_holder_count := Some (length filtered_positions)\<rparr>
                     # filter_securities stale rest
                else filter_securities stale rest)
          else sec # filter_securities stale rest)"

text \<open>
  The file \<^verbatim>\<open>total_holdings_data.json\<close> of a quarter as the function reads it: the
  securities and, under \<^verbatim>\<open>metadata\<close>, the key \<^verbatim>\<open>institution_breakdown\<close>:
  \<open>None\<close> when the key is absent, otherwise its \<^verbatim>\<open>filing_periods\<close> (\<open>None\<close>
  when that key is absent).
\<close>

record holdings_file =
  hf_securities :: "dash_security list"
  hf_institution_breakdown :: "(string \<times> filing_period) list option option"

text \<open>
  \<^verbatim>\<open>data['metadata'].get('institution_breakdown', {}).get('filing_periods', {})\<close>
\<close>

definition filing_periods_of :: "holdings_file \<Rightarrow> (string \<times> filing_period) list" where
  "filing_periods_of data =
     (case hf_institution_breakdown data of
        None \<Rightarrow> []
      | Some breakdown \<Rightarrow> (case breakdown of None \<Rightarrow> [] | Some filing_periods \<Rightarrow> filing_periods))"

text \<open>What the function hands on: the filtered securities and the three counts.\<close>

record loaded_holdings =
  lh_securities :: "dash_security list"
  lh_filtered_total :: int
  lh_filtered_current_quarter :: int
  lh_excluded_stale :: int

text \<open>
  \<open>None\<close> is the result \<^verbatim>\<open>(None, None)\<close> for a missing file. The first argument maps
  (quarter, year) to the parsed file \<^verbatim>\<open>output/{quarter}_{year}/total_holdings_data.json\<close>.
  After the loop the three counts are assigned to
  \<^verbatim>\<open>data['metadata']['institution_breakdown'][...]\<close>, which raises
  \<^verbatim>\<open>KeyError\<close> when the metadata has no key \<^verbatim>\<open>institution_breakdown\<close>.
\<close>

definition load_holdings_data ::
  "(string \<times> int \<rightharpoonup> holdings_file) \<Rightarrow> (string \<times> (string \<times> int) list) list \<Rightarrow>
   string \<Rightarrow> int \<Rightarrow> py_error + loaded_holdings option" where
  "load_holdings_data files config quarter year =
     (case files (quarter, year) of
        None \<Rightarrow> Inr None
      | Some data \<Rightarrow>
          (case quarter_number quarter of
             Inl e \<Rightarrow> Inl e
           | Inr current_quarter \<Rightarrow>
               (let max_age_days = max_age_days_of config;
                    filing_periods = filing_periods_of data;
                    stale = stale_institutions max_age_days year current_quarter filing_periods;
                    filtered_securities = filter_securities stale (hf_securities data);
                    current_institutions =
                      filter (\<lambda>(inst_name, p). fp_quarter p = current_quarter \<and> fp_year p = year
                                               \<and> inst_name \<notin> set stale) filing_periods
                in if hf_institution_breakdown data = None
                   then Inl (KeyError ''institution_breakdown'')
                   else Inr (Some \<lparr>lh_securities = filtered_securities,
                                    lh_filtered_total = int (length filing_periods) - int (length stale),
                                    lh_filtered_current_quarter = int (length current_institutions),
                                    lh_excluded_stale = int (length stale)\<rparr>))))"

subsection \<open>The specification's reading of the filter\<close>

text \<open>
  A security survives the filter when it has no positions at all or when a position of an
  institution that is not stale remains; a surviving security with positions keeps the
  remaining positions, and its \<^verbatim>\<open>holder_count\<close> is their number.
\<close>

definition survives_filter :: "string list \<Rightarrow> dash_security \<Rightarrow> bool" where
  "survives_filter stale sec =
     (case ds_positions sec of
        None \<Rightarrow> True
      | Some ps \<Rightarrow> ps = [] \<or> (\<exists>k \<in> fst ` set ps. k \<notin> set stale))"

definition without_stale :: "string list \<Rightarrow> dash_security \<Rightarrow> dash_security" where
  "without_stale stale sec =
     (case ds_positions sec of
        None \<Rightarrow> sec
      | Some ps \<Rightarrow>
          if ps = [] then sec
          else sec\<lparr>ds_positions := Some (filter (\<lambda>(k, v). k \<notin> set stale) ps),
                   ds_holder_count := Some (length (filter (\<lambda>(k, v). k \<notin> set stale) ps))\<rparr>)"

text \<open>
  An example: viewed from Q3 2025, one institution last filed for Q1 2024 and one for
  Q2 2025; a security held by both, and a security held only by the first.
\<close>

definition dashboard_sample :: holdings_file where
  "dashboard_sample =
     \<lparr>hf_securities =
        [\<lparr>ds_cusip = ''037833100'', ds_num_holders = 2,
          ds_holders = [''Old Filer'', ''Recent Filer''],
          ds_positions = Some [(''Old Filer'', \<lparr>pp_shares = 700, pp_value = 7000,
                                                pp_pct_of_company_shares = Finite 7\<rparr>),
                               (''Recent Filer'', \<lparr>pp_shares = 300, pp_value = 3000,
                                                   pp_pct_of_company_shares = Finite 3\<rparr>)],
          ds_holder_count = None\<rparr>,
         \<lparr>ds_cusip = ''594918104'', ds_num_holders = 1,
          ds_holders = [''Old Filer''],
          ds_positions = Some [(''Old Filer'', \<lparr>pp_shares = 50, pp_value = 500,
                                                pp_pct_of_company_shares = Finite 1\<rparr>)],
          ds_holder_count = None\<rparr>],
      hf_institution_breakdown =
        Some (Some [(''Old Filer'', \<lparr>fp_year = 2024, fp_quarter = 1\<rparr>),
                    (''Recent Filer'', \<lparr>fp_year = 2025, fp_quarter = 2\<rparr>)])\<rparr>"

definition dashboard_files :: "string \<times> int \<rightharpoonup> holdings_file" where
  "dashboard_files = [(''Q3'', 2025) \<mapsto> dashboard_sample]"

text \<open>A file for Q3 2025 whose metadata has no key \<^verbatim>\<open>institution_breakdown\<close>.\<close>

definition no_breakdown_files :: "string \<times> int \<rightharpoonup> holdings_file" where
  "no_breakdown_files =
     [(''Q3'', 2025) \<mapsto> \<lparr>hf_securities = [], hf_institution_breakdown = None\<rparr>]"

section \<open>CUSIP to ticker mapper\<close>

text \<open>
  Source: \<^verbatim>\<open>pipeline/02_build_cusip_mappings.py\<close>, class \<^verbatim>\<open>CUSIPMapper\<close>.
  The cache \<^verbatim>\<open>cusip_ticker_cache\<close> is a dictionary that is only looked up and
  assigned to: a map. \<^verbatim>\<open>manual_mappings\<close> and \<^verbatim>\<open>all_cusips\<close> are iterated
  over: lists of items in the order of the dictionary.

  Beside the fields of the source, the state records every request body handed to
  \<^verbatim>\<open>requests.post\<close> (the CUSIPs of the batch) and the number of
  \<^verbatim>\<open>time.sleep(60)\<close> calls. The pause between calls that depends on the clock is
  not modelled.
\<close>

record mapper_stats =
  already_mapped :: nat
  newly_mapped :: nat
  failed_mappings :: nat
  api_calls :: nat
  api_errors :: nat

record mapper =
  cusip_ticker_cache :: "string \<rightharpoonup> string"
  manual_mappings :: "(string \<times> string) list"
  all_cusips :: "(string \<times> string) list"
  stats :: mapper_stats
  requests_sent :: "string list list"
  sleeps_60 :: nat

text \<open>The loop of \<^verbatim>\<open>__init__\<close> that merges the manual mappings into the cache.\<close>

definition merge_manual_mappings ::
  "(string \<times> string) list \<Rightarrow> (string \<rightharpoonup> string) \<Rightarrow> (string \<rightharpoonup> string)" where
  "merge_manual_mappings manual cache =
     foldl (\<lambda>c (cusip, ticker). if c cusip = None then c(cusip \<mapsto> ticker) else c) cache manual"

text \<open>
  \<^verbatim>\<open>__init__\<close>, given the contents of \<^verbatim>\<open>cusip_ticker_map.json\<close> and of
  \<^verbatim>\<open>manual_mappings.json\<close> as \<^verbatim>\<open>load_json_cache\<close> returns them.
\<close>

definition CUSIPMapper_init :: "(string \<rightharpoonup> string) \<Rightarrow> (string \<times> string) list \<Rightarrow> mapper" where
  "CUSIPMapper_init cached manual =
     \<lparr>cusip_ticker_cache = merge_manual_mappings manual cached,
      manual_mappings = manual,
      all_cusips = [],
      stats = \<lparr>already_mapped = 0, newly_mapped = 0, failed_mappings = 0,
               api_calls = 0, api_errors = 0\<rparr>,
      requests_sent = [],
      sleeps_60 = 0\<rparr>"

text \<open>
  The answer of the mapping service to one call. An element of the body of a 200 answer
  is \<open>None\<close> without the key \<^verbatim>\<open>data\<close>, and otherwise the list of its results, each
  the ticker of the result when it has one. The body is \<open>None\<close> when
  \<^verbatim>\<open>response.json()\<close> raises.
\<close>

datatype post_outcome =
    Post_raises
  | Response int "string option list option list option"

text \<open>The service: the answer to the \<open>n\<close>-th call (from 0), given the CUSIPs sent.\<close>

type_synonym mapping_service = "nat \<Rightarrow> string list \<Rightarrow> post_outcome"

definition bump_newly_mapped :: "mapper \<Rightarrow> mapper" where
  "bump_newly_mapped m = m\<lparr>stats := (stats m)\<lparr>newly_mapped := newly_mapped (stats m) + 1\<rparr>\<rparr>"

definition bump_failed_mappings :: "mapper \<Rightarrow> mapper" where
  "bump_failed_mappings m = m\<lparr>stats := (stats m)\<lparr>failed_mappings := failed_mappings (stats m) + 1\<rparr>\<rparr>"

definition bump_api_calls :: "mapper \<Rightarrow> mapper" where
  "bump_api_calls m = m\<lparr>stats := (stats m)\<lparr>api_calls := api_calls (stats m) + 1\<rparr>\<rparr>"

definition bump_api_errors :: "mapper \<Rightarrow> mapper" where
  "bump_api_errors m = m\<lparr>stats := (stats m)\<lparr>api_errors := api_errors (stats m) + 1\<rparr>\<rparr>"

text \<open>
  The loop \<^verbatim>\<open>for i, item in enumerate(data)\<close> of a 200 answer. The flag says that
  \<^verbatim>\<open>batch[i]\<close> raised \<^verbatim>\<open>IndexError\<close> (more items than CUSIPs in the batch);
  what was assigned before stays assigned.
\<close>

fun process_items ::
  "(string \<times> string) list \<Rightarrow> string option list option list \<Rightarrow> mapper \<Rightarrow> mapper \<times> bool" where
  "process_items batch [] m = (m, False)"
| "process_items [] (item # items) m = (m, True)"
| "process_items ((cusip, name) # batch) (item # items) m =
     (case item of
        None \<Rightarrow> process_items batch items (bump_failed_mappings m)
      | Some results \<Rightarrow>
          if length results > 0 then
            (case find (\<lambda>result. result \<noteq> None) results of
               Some (Some ticker) \<Rightarrow>
                 process_items batch items
                   (bump_newly_mapped (m\<lparr>cusip_ticker_cache := (cusip_ticker_cache m)(cusip \<mapsto> ticker)\<rparr>))
             | _ \<Rightarrow> process_items batch items (bump_failed_mappings m))
          else process_items batch items (bump_failed_mappings m))"

text \<open>
  The body of \<^verbatim>\<open>for batch_num in range(0, len(unmapped_cusips), batch_size)\<close>. It
  returns the value of the local variable \<^verbatim>\<open>batch_num\<close> at the end of the body
  together with the state: the branch for status 429 assigns
  \<^verbatim>\<open>batch_num -= batch_size\<close>.
\<close>

definition batch_size :: nat where
  "batch_size = 10"

definition batch_body ::
  "mapping_service \<Rightarrow> (string \<times> string) list \<Rightarrow> int \<Rightarrow> mapper \<Rightarrow> int \<times> mapper" where
  "batch_body service unmapped_cusips batch_num m =
     (let batch = take batch_size (drop (nat batch_num) unmapped_cusips);
          batch_request = map fst batch;
          m1 = m\<lparr>requests_sent := requests_sent m @ [batch_request]\<rparr>
      in case service (length (requests_sent m)) batch_request of
           Post_raises \<Rightarrow> (batch_num, bump_api_errors m1)
         | Response status_code body \<Rightarrow>
             (let m2 = bump_api_calls m1
              in if status_code = 200 then
                   (case body of
                      None \<Rightarrow> (batch_num, bump_api_errors m2)
                    | Some data \<Rightarrow>
                        (case process_items batch data m2 of
                           (m3, raised) \<Rightarrow>
                             if raised then (batch_num, bump_api_errors m3) else (batch_num, m3)))
                 else if status_code = 429 then
                   (batch_num - int batch_size, m2\<lparr>sleeps_60 := sleeps_60 m2 + 1\<rparr>)
                 else if status_code = 413 then (batch_num, bump_api_errors m2)
                 else (batch_num, bump_api_errors m2)))"

text \<open>
  The \<^verbatim>\<open>for\<close> statement: each iteration binds \<^verbatim>\<open>batch_num\<close> to the next value of
  the range; the value the body left in the variable is not read.
\<close>

definition py_range :: "nat \<Rightarrow> nat \<Rightarrow> int list" where
  "py_range stop step = map (\<lambda>i. int (i * step)) [0 ..< (stop + step - 1) div step]"

fun batch_loop ::
  "mapping_service \<Rightarrow> (string \<times> string) list \<Rightarrow> int list \<Rightarrow> mapper \<Rightarrow> mapper" where
  "batch_loop service unmapped_cusips [] m = m"
| "batch_loop service unmapped_cusips (batch_num # rest) m =
     (case batch_body service unmapped_cusips batch_num m of
        (batch_num', m') \<Rightarrow> batch_loop service unmapped_cusips rest m')"

text \<open>The first loop of \<^verbatim>\<open>map_cusips_via_api\<close>.\<close>

definition unmapped_of :: "mapper \<Rightarrow> (string \<times> string) list" where
  "unmapped_of m = filter (\<lambda>(cusip, name). cusip_ticker_cache m cusip = None) (all_cusips m)"

definition map_cusips_via_api :: "mapping_service \<Rightarrow> mapper \<Rightarrow> mapper" where
  "map_cusips_via_api service m =
     (let unmapped_cusips = unmapped_of m;
          m0 = m\<lparr>stats := (stats m)\<lparr>already_mapped :=
                     already_mapped (stats m) + (length (all_cusips m) - length unmapped_cusips)\<rparr>\<rparr>
      in if unmapped_cusips = [] then m0
         else batch_loop service unmapped_cusips
                (py_range (length unmapped_cusips) batch_size) m0)"

text \<open>
  \<^verbatim>\<open>main\<close>: construct the mapper, collect the CUSIPs of the filings (given here as
  the dictionary \<^verbatim>\<open>collect_all_cusips\<close> fills), resolve the unmapped ones.
\<close>

definition mapper_run ::
  "mapping_service \<Rightarrow> (string \<rightharpoonup> string) \<Rightarrow> (string \<times> string) list \<Rightarrow>
   (string \<times> string) list \<Rightarrow> mapper" where
  "mapper_run service cached manual collected =
     map_cusips_via_api service ((CUSIPMapper_init cached manual)\<lparr>all_cusips := collected\<rparr>)"

text \<open>
  A service that answers its first call with status 429 and every later call with the
  ticker \<^verbatim>\<open>AAPL\<close> for each CUSIP sent.
\<close>

definition rate_limited_once :: mapping_service where
  "rate_limited_once n request =
     (if n = 0 then Response 429 None
      else Response 200 (Some (map (\<lambda>cusip. Some [Some ''AAPL'']) request)))"

section \<open>Configuration loader\<close>

text \<open>
  Source: \<^verbatim>\<open>pipeline/config_loader.py\<close>, function \<^verbatim>\<open>load_config_with_env\<close>,
  from the value \<^verbatim>\<open>json.load\<close> returned on. A JSON object is the list of its items;
  a key is looked up with \<open>map_of\<close> and assigned with \<open>dict_set\<close>. The file holds a
  JSON object at top level; numbers are integers.
\<close>

datatype json =
    JNull
  | JBool bool
  | JInt int
  | JStr string
  | JList "json list"
  | JObj "(string \<times> json) list"

text \<open>\<^verbatim>\<open>d[k] = v\<close>: replace the value of an existing key in place, or append the item.\<close>

fun dict_set :: "string \<Rightarrow> 'v \<Rightarrow> (string \<times> 'v) list \<Rightarrow> (string \<times> 'v) list" where
  "dict_set k v [] = [(k, v)]"
| "dict_set k v ((k', v') # rest) =
     (if k' = k then (k, v) # rest else (k', v') # dict_set k v rest)"

text \<open>Python's truth value of a JSON value.\<close>

fun truthy :: "json \<Rightarrow> bool" where
  "truthy JNull = False"
| "truthy (JBool b) = b"
| "truthy (JInt i) = (i \<noteq> 0)"
| "truthy (JStr s) = (s \<noteq> [])"
| "truthy (JList xs) = (xs \<noteq> [])"
| "truthy (JObj items) = (items \<noteq> [])"

text \<open>
  One of the two override blocks:
  \<^verbatim>\<open>if 'user_agent' not in config: config['user_agent'] = {}\<close> followed by
  \<^verbatim>\<open>config['user_agent'][field] = value\<close>. Assigning an item of a value that is not
  a dictionary raises \<^verbatim>\<open>TypeError\<close>.
\<close>

definition override_user_agent ::
  "string \<Rightarrow> string \<Rightarrow> (string \<times> json) list \<Rightarrow> py_error + (string \<times> json) list" where
  "override_user_agent field v config =
     (let config1 = (if map_of config ''user_agent'' = None
                     then dict_set ''user_agent'' (JObj []) config else config)
      in case map_of config1 ''user_agent'' of
           Some (JObj user_agent) \<Rightarrow>
             Inr (dict_set ''user_agent'' (JObj (dict_set field (JStr v) user_agent)) config1)
         | _ \<Rightarrow> Inl TypeError)"

text \<open>
  The function, given \<^verbatim>\<open>os.environ\<close> and the parsed file. The error of the check is
  \<^verbatim>\<open>ValueError\<close>; calling \<^verbatim>\<open>.get\<close> on a \<^verbatim>\<open>user_agent\<close> that is not a
  dictionary raises \<^verbatim>\<open>AttributeError\<close>.
\<close>

definition load_config_with_env ::
  "(string \<rightharpoonup> string) \<Rightarrow> (string \<times> json) list \<Rightarrow> py_error + (string \<times> json) list" where
  "load_config_with_env environ config =
     (case (case environ ''SEC_USER_NAME'' of
              None \<Rightarrow> Inr config
            | Some v \<Rightarrow> override_user_agent ''name'' v config) of
        Inl e \<Rightarrow> Inl e
      | Inr config1 \<Rightarrow>
          (case (case environ ''SEC_USER_EMAIL'' of
                   None \<Rightarrow> Inr config1
                 | Some v \<Rightarrow> override_user_agent ''email'' v config1) of
             Inl e \<Rightarrow> Inl e
           | Inr config2 \<Rightarrow>
               (case map_of config2 ''user_agent'' of
                  None \<Rightarrow> Inl ValueError
                | Some (JObj user_agent) \<Rightarrow>
                    (case map_of user_agent ''email'' of
                       None \<Rightarrow> Inl ValueError
                     | Some email \<Rightarrow> if truthy email then Inr config2 else Inl ValueError)
                | Some _ \<Rightarrow> Inl (AttributeError ''get''))))"

text \<open>
  The value of \<^verbatim>\<open>user_agent.<field>\<close> in a configuration: \<open>None\<close> when
  \<^verbatim>\<open>user_agent\<close> is absent or no dictionary, or the field is absent.
\<close>

definition user_agent_field :: "string \<Rightarrow> (string \<times> json) list \<Rightarrow> json option" where
  "user_agent_field field config =
     (case map_of config ''user_agent'' of
        Some (JObj user_agent) \<Rightarrow> map_of user_agent field
      | _ \<Rightarrow> None)"

text \<open>The file is well formed when \<^verbatim>\<open>user_agent\<close>, if present, is a JSON object.\<close>

definition user_agent_is_object :: "(string \<times> json) list \<Rightarrow> bool" where
  "user_agent_is_object config =
     (case map_of config ''user_agent'' of
        None \<Rightarrow> True
      | Some (JObj user_agent) \<Rightarrow> True
      | Some _ \<Rightarrow> False)"

text \<open>The specification's reading: the value a field resolves to from the two sources.\<close>

definition resolved_field ::
  "(string \<rightharpoonup> string) \<Rightarrow> string \<Rightarrow> string \<Rightarrow> (string \<times> json) list \<Rightarrow> json option" where
  "resolved_field environ variable field config =
     (case environ variable of
        Some v \<Rightarrow> Some (JStr v)
      | None \<Rightarrow> user_agent_field field config)"

definition config_sample :: "(string \<times> json) list" where
  "config_sample =
     [(''user_agent'', JObj [(''name'', JStr ''Analyst''), (''email'', JStr '''')]),
      (''analysis'', JObj [(''max_data_age_days'', JInt 365)])]"

section \<open>Filing downloader\<close>

text \<open>
  Source: \<^verbatim>\<open>pipeline/00_download_13f_filings.py\<close>, the loop over \<^verbatim>\<open>cik_list\<close>
  in \<^verbatim>\<open>ModernSEC13FDownloader.download_quarter_filings\<close>.

  \<^verbatim>\<open>self.downloader.get\<close> belongs to the package \<^verbatim>\<open>sec_edgar_downloader\<close>. Its
  outcome for a CIK is a parameter: it raises (with a message), or it returns, and then the
  directory \<^verbatim>\<open>sec-edgar-filings/<cik>/13F-HR\<close> does not exist (\<open>None\<close>) or has the
  given children, each with the period \<^verbatim>\<open>extract_filing_period\<close> finds in it.
  Writing the progress file is taken to succeed.
\<close>

record report_period =
  rp_year :: int
  rp_quarter :: int
  rp_month :: int

datatype get_outcome =
    Get_raises string
  | Get_returns "(string \<times> report_period option) list option"

record download_entry =
  de_cik :: string
  de_name :: string
  de_filing_period :: "report_period option"
  de_error :: "string option"

record downloader =
  downloaded_ciks :: "string set"
  cik_metadata :: "string \<rightharpoonup> string"
  successful_downloads :: "download_entry list"
  failed_downloads :: "download_entry list"
  skipped_downloads :: "download_entry list"
  success_count :: nat
  failed_count :: nat
  skipped_count :: nat

text \<open>
  \<^verbatim>\<open>max(filing_path.iterdir(), key=lambda x: x.name)\<close> on a directory with a child:
  the first child with the greatest name.
\<close>

definition latest_filing :: "string \<times> 'a \<Rightarrow> (string \<times> 'a) list \<Rightarrow> string \<times> 'a" where
  "latest_filing first others = foldl (\<lambda>best x. if fst best < fst x then x else best) first others"

text \<open>\<^verbatim>\<open>company_info.get("name", f"CIK {cik}")\<close>\<close>

definition company_name_of :: "downloader \<Rightarrow> string \<Rightarrow> string" where
  "company_name_of d cik = (case cik_metadata d cik of None \<Rightarrow> ''CIK '' @ cik | Some n \<Rightarrow> n)"

text \<open>The body of the loop for one CIK.\<close>

definition download_cik :: "(string \<Rightarrow> get_outcome) \<Rightarrow> downloader \<Rightarrow> string \<Rightarrow> downloader" where
  "download_cik get d cik =
     (let company_name = company_name_of d cik
      in if cik \<in> downloaded_ciks d then
           d\<lparr>skipped_count := skipped_count d + 1,
             skipped_downloads := skipped_downloads d
               @ [\<lparr>de_cik = cik, de_name = company_name, de_filing_period = None, de_error = None\<rparr>]\<rparr>
         else
           (case get cik of
              Get_raises message \<Rightarrow>
                d\<lparr>failed_count := failed_count d + 1,
                  failed_downloads := failed_downloads d
                    @ [\<lparr>de_cik = cik, de_name = company_name, de_filing_period = None,
                        de_error = Some message\<rparr>]\<rparr>
            | Get_returns filing_path \<Rightarrow>
                (let filing_period =
                       (case filing_path of
                          None \<Rightarrow> None
                        | Some [] \<Rightarrow> None
                        | Some (child # children) \<Rightarrow> snd (latest_filing child children))
                 in d\<lparr>success_count := success_count d + 1,
                      successful_downloads := successful_downloads d
                        @ [\<lparr>de_cik = cik, de_name = company_name, de_filing_period = filing_period,
                            de_error = None\<rparr>],
                      downloaded_ciks := insert cik (downloaded_ciks d)\<rparr>)))"

text \<open>
  The loop, from the state in which \<^verbatim>\<open>download_quarter_filings\<close> has reset the
  counters and the three lists.
\<close>

definition reset_tracking :: "downloader \<Rightarrow> downloader" where
  "reset_tracking d =
     d\<lparr>successful_downloads := [], failed_downloads := [], skipped_downloads := [],
       success_count := 0, failed_count := 0, skipped_count := 0\<rparr>"

definition download_quarter_filings ::
  "(string \<Rightarrow> get_outcome) \<Rightarrow> downloader \<Rightarrow> string list \<Rightarrow> downloader" where
  "download_quarter_filings get d cik_list = foldl (download_cik get) (reset_tracking d) cik_list"

text \<open>
  A downloader with no progress yet, and a package call that returns for every CIK
  without creating a directory.
\<close>

definition fresh_downloader :: downloader where
  "fresh_downloader =
     \<lparr>downloaded_ciks = {}, cik_metadata = [''0001067983'' \<mapsto> ''BERKSHIRE HATHAWAY INC''],
      successful_downloads = [], failed_downloads = [], skipped_downloads = [],
      success_count = 0, failed_count = 0, skipped_count = 0\<rparr>"

definition nothing_fetched :: "string \<Rightarrow> get_outcome" where
  "nothing_fetched cik = Get_returns None"

section \<open>Properties of the shared helpers\<close>

lemma set_insert_desc: "set (insert_desc gt x ys) = insert x (set ys)"
  by (induction ys) auto


lemma set_sort_reverse: "set (sort_reverse gt xs) = set xs"
  unfolding sort_reverse_def by (induction xs) (simp_all add: set_insert_desc)


lemma set_py_set: "set (py_set xs) = set xs"
  by (simp add: py_set_def)

lemma distinct_py_set: "distinct (py_set xs)"
  by (simp add: py_set_def)




lemma quarter_number_Q3: "quarter_number ''Q3'' = Inr 3"
  by (simp add: quarter_number_def)


lemma str_int_2: "str_int 2 = ''2''"
  by code_simp


section \<open>Properties of the validity gate\<close>

lemma year_digits:
  fixes y :: nat
  assumes "y \<le> 9999"
  shows "(y div 1000 mod 10 < 2 \<or> y div 1000 mod 10 = 2 \<and>
          (y div 100 mod 10 = 0 \<and>
           (y div 10 mod 10 < 2 \<or> y div 10 mod 10 = 2 \<and> (y mod 10 < 4 \<or> y mod 10 = 4 \<and> P))))
         \<longleftrightarrow> y < 2024 \<or> y = 2024 \<and> P"
proof -
  define e where "e = y mod 10"
  define q1 where "q1 = y div 10"
  define c where "c = q1 mod 10"
  define q2 where "q2 = q1 div 10"
  define b where "b = q2 mod 10"
  define a where "a = q2 div 10"
  have y: "y = 10 * q1 + e" and q1: "q1 = 10 * q2 + c" and q2: "q2 = 10 * a + b"
    by (simp_all add: e_def q1_def c_def q2_def b_def a_def)
  have bounds: "e < 10" "c < 10" "b < 10"
    by (simp_all add: e_def c_def b_def)
  have "a < 10" using assms y q1 q2 by linarith
  have d1000: "y div 1000 mod 10 = a"
  proof -
    have "y div 1000 = y div 10 div 10 div 10" by (simp add: div_mult2_eq)
    then show ?thesis using \<open>a < 10\<close> by (simp add: a_def q2_def q1_def)
  qed
  have d100: "y div 100 mod 10 = b"
  proof -
    have "y div 100 = y div 10 div 10" by (simp add: div_mult2_eq)
    then show ?thesis by (simp add: b_def q2_def q1_def)
  qed
  have d10: "y div 10 mod 10 = c" by (simp add: c_def q1_def)
  have yy: "y = 1000 * a + 100 * b + 10 * c + e" using y q1 q2 by linarith
  have "(a < 2 \<or> a = 2 \<and> (b = 0 \<and> (c < 2 \<or> c = 2 \<and> (e < 4 \<or> e = 4 \<and> P))))
      \<longleftrightarrow> 1000 * a + 100 * b + 10 * c + e < 2024 \<or> 1000 * a + 100 * b + 10 * c + e = 2024 \<and> P"
    using bounds by (cases P) auto
  then show ?thesis
    unfolding d1000 d100 d10 e_def [symmetric] using yy by simp
qed

lemma month_digits:
  fixes m :: nat
  assumes "m \<le> 99"
  shows "(m div 10 mod 10 = 0 \<and> (m mod 10 < 7 \<or> m mod 10 = 7 \<and> P)) \<longleftrightarrow> m < 7 \<or> m = 7 \<and> P"
proof -
  define a where "a = m div 10"
  define b where "b = m mod 10"
  have "m = 10 * a + b" "b < 10" by (simp_all add: a_def b_def)
  moreover have "m div 10 mod 10 = a" using assms by (simp add: a_def)
  ultimately show ?thesis unfolding b_def [symmetric] by (cases P) auto
qed

lemma day_digits:
  fixes d :: nat
  assumes "d \<le> 99"
  shows "(d div 10 mod 10 = 0 \<and> d mod 10 = 0) \<longleftrightarrow> d < 1"
proof -
  define a where "a = d div 10"
  define b where "b = d mod 10"
  have "d = 10 * a + b" "b < 10" by (simp_all add: a_def b_def)
  moreover have "d div 10 mod 10 = a" using assms by (simp add: a_def)
  ultimately show ?thesis unfolding b_def [symmetric] by auto
qed


lemma of_char_digit_char: "of_char (digit_char n) = (48 + n mod 10 :: nat)"
  by (simp add: digit_char_def)

lemma digit_char_eq_iff: "digit_char a = digit_char b \<longleftrightarrow> a mod 10 = b mod 10"
proof -
  have "digit_char a = digit_char b \<longleftrightarrow> (of_char (digit_char a) :: nat) = of_char (digit_char b)"
    by (simp only: of_char_eq_iff)
  then show ?thesis by (simp add: of_char_digit_char)
qed

lemma digit_char_less_iff: "digit_char a < digit_char b \<longleftrightarrow> a mod 10 < b mod 10"
  by (simp add: less_char_def of_char_digit_char)

lemma cutoff_string: "''2024-07-01'' = isoformat_date 2024 7 1"
  by code_simp

lemma isoformat_date_less_digits:
  "isoformat_date y m d @ rest < isoformat_date 2024 7 1 \<longleftrightarrow>
     (y div 1000 mod 10 < 2 \<or> y div 1000 mod 10 = 2 \<and>
          (y div 100 mod 10 = 0 \<and>
           (y div 10 mod 10 < 2 \<or> y div 10 mod 10 = 2 \<and> (y mod 10 < 4 \<or> y mod 10 = 4 \<and>
     (m div 10 mod 10 = 0 \<and> (m mod 10 < 7 \<or> m mod 10 = 7 \<and> (d div 10 mod 10 = 0 \<and> d mod 10 = 0)))))))"
  by (simp add: isoformat_date_def digit_char_less_iff digit_char_eq_iff)

lemma isoformat_date_less_cutoff:
  assumes "y \<le> 9999" and "m \<le> 99" and "d \<le> 99"
  shows "isoformat_date y m d @ rest < ''2024-07-01'' \<longleftrightarrow> date_before (y, m, d) (2024, 7, 1)"
  unfolding cutoff_string isoformat_date_less_digits date_before_def prod.case
  by (simp only: year_digits [OF assms(1)] month_digits [OF assms(2)] day_digits [OF assms(3)])

text \<open>
  Claim C3, as the code has it. Whatever the date argument, a shares count among the
  placeholder values 1, 10, 12, 100, 1000, 10000 or below 100,000 is invalid; a missing
  date (None or the empty string) is invalid; for a non-empty date string whose date part
  parses to a timezone-naive datetime \<open>t\<close> and a shares count of at least 100,000, the
  record is valid exactly when the whole days from \<open>t\<close> to now, the floor of
  \<open>(now - t) / 86400000000\<close>, are at most 365 and the string does not sort before
  \<^verbatim>\<open>2024-07-01\<close>; for a string that starts with the rendering \<^verbatim>\<open>YYYY-MM-DD\<close> of a
  date, that comparison is the calendar comparison with 1 July 2024; and the boundary
  string \<^verbatim>\<open>2024-07-01\<close> itself is accepted when it is not stale.
\<close>

theorem is_valid_shares_data_spec:
  fixes shares_outstanding now t :: int
  shows "(shares_outstanding \<in> {1, 10, 12, 100, 1000, 10000} \<or> shares_outstanding < 100000
            \<longrightarrow> \<not> fst (is_valid_shares_data fromisoformat now shares_outstanding shares_date))
    \<and> \<not> fst (is_valid_shares_data fromisoformat now shares_outstanding None)
    \<and> \<not> fst (is_valid_shares_data fromisoformat now shares_outstanding (Some []))
    \<and> (100000 \<le> shares_outstanding \<and> s \<noteq> [] \<and> fromisoformat (split_T_0 s) = Naive t
          \<longrightarrow> (fst (is_valid_shares_data fromisoformat now shares_outstanding (Some s))
                \<longleftrightarrow> \<not> 365 < (now - t) div 86400000000 \<and> \<not> s < ''2024-07-01''))
    \<and> (100000 \<le> shares_outstanding \<and> y \<le> 9999 \<and> m \<le> 99 \<and> d \<le> 99
          \<and> fromisoformat (split_T_0 (isoformat_date y m d @ rest)) = Naive t
          \<longrightarrow> (fst (is_valid_shares_data fromisoformat now shares_outstanding
                       (Some (isoformat_date y m d @ rest)))
                \<longleftrightarrow> \<not> 365 < (now - t) div 86400000000 \<and> \<not> date_before (y, m, d) (2024, 7, 1)))
    \<and> (100000 \<le> shares_outstanding \<and> fromisoformat ''2024-07-01'' = Naive t
          \<and> \<not> 365 < (now - t) div 86400000000
          \<longrightarrow> is_valid_shares_data fromisoformat now shares_outstanding (Some ''2024-07-01'')
                = (True, Valid))"
proof (intro conjI impI)
  show "\<not> fst (is_valid_shares_data fromisoformat now shares_outstanding shares_date)"
    if "shares_outstanding \<in> {1, 10, 12, 100, 1000, 10000} \<or> shares_outstanding < 100000"
    using that by (auto simp add: is_valid_shares_data_def placeholder_values_def)
  show "\<not> fst (is_valid_shares_data fromisoformat now shares_outstanding None)"
    by (simp add: is_valid_shares_data_def)
  show "\<not> fst (is_valid_shares_data fromisoformat now shares_outstanding (Some []))"
    by (simp add: is_valid_shares_data_def)
  show "fst (is_valid_shares_data fromisoformat now shares_outstanding (Some s))
          \<longleftrightarrow> \<not> 365 < (now - t) div 86400000000 \<and> \<not> s < ''2024-07-01''"
    if "100000 \<le> shares_outstanding \<and> s \<noteq> [] \<and> fromisoformat (split_T_0 s) = Naive t"
    using that by (auto simp add: is_valid_shares_data_def placeholder_values_def Let_def
        timedelta_days_def microseconds_per_day_def)
  show "fst (is_valid_shares_data fromisoformat now shares_outstanding
                       (Some (isoformat_date y m d @ rest)))
                \<longleftrightarrow> \<not> 365 < (now - t) div 86400000000 \<and> \<not> date_before (y, m, d) (2024, 7, 1)"
    if h: "100000 \<le> shares_outstanding \<and> y \<le> 9999 \<and> m \<le> 99 \<and> d \<le> 99
          \<and> fromisoformat (split_T_0 (isoformat_date y m d @ rest)) = Naive t"
  proof -
    have ne: "isoformat_date y m d @ rest \<noteq> []" by (simp add: isoformat_date_def)
    have lt: "isoformat_date y m d @ rest < ''2024-07-01'' \<longleftrightarrow> date_before (y, m, d) (2024, 7, 1)"
      using h by (intro isoformat_date_less_cutoff) simp_all
    have "fst (is_valid_shares_data fromisoformat now shares_outstanding
                       (Some (isoformat_date y m d @ rest)))
          \<longleftrightarrow> \<not> 365 < (now - t) div 86400000000 \<and> \<not> isoformat_date y m d @ rest < ''2024-07-01''"
      using h ne by (auto simp add: is_valid_shares_data_def placeholder_values_def Let_def
        timedelta_days_def microseconds_per_day_def)
    then show ?thesis by (simp only: lt)
  qed
  show "is_valid_shares_data fromisoformat now shares_outstanding (Some ''2024-07-01'') = (True, Valid)"
    if "100000 \<le> shares_outstanding \<and> fromisoformat ''2024-07-01'' = Naive t
          \<and> \<not> 365 < (now - t) div 86400000000"
  proof -
    have "split_T_0 ''2024-07-01'' = ''2024-07-01''" by (simp add: split_T_0_def)
    then show ?thesis using that
      by (auto simp add: is_valid_shares_data_def placeholder_values_def Let_def
        timedelta_days_def microseconds_per_day_def)
  qed
qed

theorem is_valid_shares_data_spec_witness:
  "(12 \<in> {1, 10, 12, 100, 1000, 10000 :: int} \<or> (12 :: int) < 100000)
   \<and> \<not> fst (is_valid_shares_data fromisoformat_sample now_sample 12 (Some ''2024-08-01''))
   \<and> (100000 \<le> (5000000 :: int) \<and> ''2024-08-01T00:00:00'' \<noteq> []
        \<and> fromisoformat_sample (split_T_0 ''2024-08-01T00:00:00'') = Naive 63858067200000000)
   \<and> fst (is_valid_shares_data fromisoformat_sample now_sample 5000000 (Some ''2024-08-01T00:00:00''))
   \<and> \<not> 365 < (now_sample - 63858067200000000) div 86400000000
   \<and> \<not> ''2024-08-01T00:00:00'' < ''2024-07-01''"
proof -
  have parsed: "fromisoformat_sample (split_T_0 ''2024-08-01T00:00:00'') = Naive 63858067200000000"
    by (simp add: fromisoformat_sample_def split_T_0_def)
  have fresh: "\<not> 365 < (now_sample - 63858067200000000) div 86400000000"
    by (simp add: timedelta_days_def now_sample_def microseconds_per_day_def)
  have later: "\<not> ''2024-08-01T00:00:00'' < ''2024-07-01''"
    by simp
  show ?thesis
    using is_valid_shares_data_spec [of 12 fromisoformat_sample now_sample "Some ''2024-08-01''"
        "''2024-08-01T00:00:00''" 63858067200000000 0 0 0 "[]"]
      is_valid_shares_data_spec [of 5000000 fromisoformat_sample now_sample None
        "''2024-08-01T00:00:00''" 63858067200000000 0 0 0 "[]"]
      parsed fresh later
    by simp
qed

text \<open>
  Claim C3 as stated fails for dates that \<^verbatim>\<open>datetime.fromisoformat\<close> parses but that
  are not a naive datetime written \<^verbatim>\<open>YYYY-MM-DD\<close>. With the clock at 15 January 2025:
  the string \<^verbatim>\<open>2023-01-01 00:00:00+00:00\<close> parses to a timezone-aware datetime more
  than 365 days back and before 1 July 2024, and the record is valid; the string
  \<^verbatim>\<open>20240630\<close> parses to 30 June 2024, before the cutoff date, and the record is
  valid as well, because the string does not sort before \<^verbatim>\<open>2024-07-01\<close>.
\<close>

theorem parseable_dates_outside_the_checks:
  "fromisoformat_sample (split_T_0 ''2023-01-01 00:00:00+00:00'') = Aware 63808128000000000
   \<and> 365 < (now_sample - 63808128000000000) div 86400000000
   \<and> (63808128000000000 :: int) < 63855388800000000
   \<and> fromisoformat_sample ''2024-07-01'' = Naive 63855388800000000
   \<and> is_valid_shares_data fromisoformat_sample now_sample 5000000
        (Some ''2023-01-01 00:00:00+00:00'') = (True, Valid)
   \<and> fromisoformat_sample (split_T_0 ''20240630'') = Naive 63855302400000000
   \<and> (63855302400000000 :: int) < 63855388800000000
   \<and> is_valid_shares_data fromisoformat_sample now_sample 5000000 (Some ''20240630'')
        = (True, Valid)"
  by (simp add: is_valid_shares_data_def fromisoformat_sample_def split_T_0_def now_sample_def
      placeholder_values_def timedelta_days_def microseconds_per_day_def)

text \<open>
  Claim C10. For a shares count that is no placeholder and is at least 100,000, a
  non-empty date string whose date part \<^verbatim>\<open>datetime.fromisoformat\<close> rejects is
  reported valid: the staleness check and the 2024-07-01 cutoff are both skipped, whatever
  the clock and whatever the string, while a missing date (None or the empty string) is
  rejected for the same shares count.
\<close>

theorem unparseable_date_is_valid:
  assumes "shares_outstanding \<notin> set placeholder_values"
    and "100000 \<le> shares_outstanding"
    and "s \<noteq> []"
    and "fromisoformat (split_T_0 s) = Raises_ValueError"
  shows "is_valid_shares_data fromisoformat now shares_outstanding (Some s) = (True, Valid)
    \<and> is_valid_shares_data fromisoformat now shares_outstanding None = (False, No_date_information)
    \<and> is_valid_shares_data fromisoformat now shares_outstanding (Some []) = (False, No_date_information)"
  using assms by (simp add: is_valid_shares_data_def)

theorem unparseable_date_is_valid_witness:
  "(5000000 :: int) \<notin> set placeholder_values \<and> 100000 \<le> (5000000 :: int)
   \<and> ''last year'' \<noteq> [] \<and> fromisoformat_sample (split_T_0 ''last year'') = Raises_ValueError
   \<and> is_valid_shares_data fromisoformat_sample now_sample 5000000 (Some ''last year'') = (True, Valid)
   \<and> is_valid_shares_data fromisoformat_sample now_sample 5000000 None = (False, No_date_information)"
proof -
  have a: "(5000000 :: int) \<notin> set placeholder_values" by (simp add: placeholder_values_def)
  have b: "fromisoformat_sample (split_T_0 ''last year'') = Raises_ValueError"
    by (simp add: fromisoformat_sample_def split_T_0_def)
  show ?thesis
    using unparseable_date_is_valid [of 5000000 "''last year''" fromisoformat_sample now_sample] a b
    by simp
qed

section \<open>Properties of the ownership cap\<close>

text \<open>Spot checks of the rounding against the values CPython computes.\<close>

lemma round_double_tenth: "round_double (1 / 10) = 3602879701896397 / 36028797018963968"
  by code_simp

lemma round_double_third: "round_double (1 / 3) = 6004799503160661 / 18014398509481984"
  by code_simp

lemma round_double_110: "round_double (round_double (11 / 10) * 100) = 7740561859543041 / 70368744177664"
  by code_simp

lemma quotient_101:
  "round_double (of_int 1010000 / of_int 1000000) = 4548635623644201 / 4503599627370496"
  by code_simp

lemma product_101: "round_double (4548635623644201 / 4503599627370496 * 100) = 101"
  by code_simp

lemma quotient_105:
  "round_double (of_int 1050000 / of_int 1000000) = 4728779608739021 / 4503599627370496"
  by code_simp

lemma product_105: "round_double (4728779608739021 / 4503599627370496 * 100) = 105"
  by code_simp

lemma truediv_101:
  "int_truediv 1010000 1000000 = Inr (Finite (4548635623644201 / 4503599627370496))"
  by (simp only: int_truediv_def quotient_101 Let_def) simp

lemma truediv_105:
  "int_truediv 1050000 1000000 = Inr (Finite (4728779608739021 / 4503599627370496))"
  by (simp only: int_truediv_def quotient_105 Let_def) simp

lemma times_100_101:
  "float_times_100 (Finite (4548635623644201 / 4503599627370496)) = Finite 101"
  by (simp only: float_times_100_def pyfloat.case product_101 Let_def) simp

lemma times_100_105:
  "float_times_100 (Finite (4728779608739021 / 4503599627370496)) = Finite 105"
  by (simp only: float_times_100_def pyfloat.case product_105 Let_def) simp

lemma pct_105: "pct_of_shares_outstanding 1050000 1000000 = Inr (Finite 105)"
  by (simp only: pct_of_shares_outstanding_def truediv_105 sum.case times_100_105)

lemma pct_101: "pct_of_shares_outstanding 1010000 1000000 = Inr (Finite 101)"
  by (simp only: pct_of_shares_outstanding_def truediv_101 sum.case times_100_101)


lemma cap_sample_result:
  "total_holdings_pct cap_sample =
     Inr [\<lparr>hp_cusip = ''222222222'', hp_name = ''AT THE CAP INC'', hp_shares = 1010000,
           hp_value = 2020000, hp_shares_outstanding = 1000000, hp_pct_of_shares = Finite 101,
           hp_num_holders = 1, hp_holders = [''Institution A''],
           hp_positions = [(''Institution A'',
                            \<lparr>pp_shares = 1010000, pp_value = 2020000,
                             pp_pct_of_company_shares = Finite 101\<rparr>)]\<rparr>]"
  by (simp add: total_holdings_pct_def cap_sample_def pct_105 pct_101 float_gt_int_def
      sort_reverse_def)

lemma metrics_loop_rest:
  assumes "metrics_loop (item # rest) = Inr (acc, unmapped_count)"
  shows "\<exists>acc' n'. metrics_loop rest = Inr (acc', n') \<and> set acc' \<subseteq> set acc"
proof -
  obtain c d where item: "item = (c, d)" by (cases item)
  show ?thesis
    using assms unfolding item
    by (fastforce split: option.splits sum.splits if_splits prod.splits)
qed

lemma metrics_loop_accepts:
  assumes "metrics_loop current_holdings = Inr (acc, unmapped_count)"
    and "(cusip_key, data) \<in> set current_holdings"
    and "h_shares_outstanding data = Some outstanding"
    and "0 < outstanding"
  shows "\<exists>pct. pct_of_shares_outstanding (h_shares data) outstanding = Inr pct
           \<and> (\<not> float_gt_int pct 101 \<longrightarrow>
                (\<exists>entry \<in> set acc. hp_cusip entry = cusip_key \<and> hp_pct_of_shares entry = pct))"
  using assms
proof (induction current_holdings arbitrary: acc unmapped_count)
  case Nil
  then show ?case by simp
next
  case (Cons item rest)
  obtain c d where item: "item = (c, d)" by (cases item)
  show ?case
  proof (cases "(cusip_key, data) = (c, d)")
    case True
    then show ?thesis
      using Cons.prems(1,3,4) unfolding item
      by (auto split: sum.splits if_splits prod.splits)
  next
    case False
    then have mem: "(cusip_key, data) \<in> set rest"
      using Cons.prems(2) item by auto
    from metrics_loop_rest [OF Cons.prems(1)] obtain acc' n' where
      rest: "metrics_loop rest = Inr (acc', n')" and sub: "set acc' \<subseteq> set acc"
      by blast
    from Cons.IH [OF rest mem Cons.prems(3,4)] sub show ?thesis by blast
  qed
qed

lemma metrics_loop_accepted_entry:
  assumes "metrics_loop current_holdings = Inr (acc, unmapped_count)"
    and "entry \<in> set acc"
  shows "\<exists>data outstanding.
           (hp_cusip entry, data) \<in> set current_holdings
           \<and> h_shares_outstanding data = Some outstanding \<and> 0 < outstanding
           \<and> pct_of_shares_outstanding (h_shares data) outstanding = Inr (hp_pct_of_shares entry)
           \<and> \<not> float_gt_int (hp_pct_of_shares entry) 101
           \<and> hp_shares entry = h_shares data \<and> hp_shares_outstanding entry = outstanding"
  using assms
proof (induction current_holdings arbitrary: acc unmapped_count)
  case Nil
  then show ?case by simp
next
  case (Cons item rest)
  obtain c d where item: "item = (c, d)" by (cases item)
  from metrics_loop_rest [OF Cons.prems(1)] obtain acc' n' where
    rest: "metrics_loop rest = Inr (acc', n')"
    by blast
  show ?case
  proof (cases "entry \<in> set acc'")
    case True
    from Cons.IH [OF rest True] show ?thesis by auto
  next
    case False
    then show ?thesis
      using Cons.prems rest unfolding item
      by (auto split: option.splits sum.splits if_splits prod.splits)
  qed
qed


text \<open>
  Claim C2. When \<^verbatim>\<open>calculate_metrics\<close> returns, then for every security of the
  holdings with positive shares outstanding the percentage is the float product by 100 of
  the float quotient of shares held by shares outstanding, and the security has an entry in
  the accepted list exactly when that percentage is not greater than 101; the entry carries
  the percentage. 1,050,000 of 1,000,000 shares give 105.0, which is greater than 101;
  1,010,000 of 1,000,000 give exactly 101.0, which is not.
\<close>

theorem ownership_cap_spec:
  assumes "total_holdings_pct current_holdings = Inr accepted"
    and "distinct (map fst current_holdings)"
    and "(cusip_key, data) \<in> set current_holdings"
    and "h_shares_outstanding data = Some outstanding"
    and "0 < outstanding"
  shows "(\<exists>pct. pct_of_shares_outstanding (h_shares data) outstanding = Inr pct
           \<and> pct = float_times_100
                     (Finite (round_double (of_int (h_shares data) / of_int outstanding)))
           \<and> ((\<exists>entry \<in> set accepted. hp_cusip entry = cusip_key) \<longleftrightarrow> \<not> float_gt_int pct 101)
           \<and> (\<forall>entry \<in> set accepted. hp_cusip entry = cusip_key \<longrightarrow> hp_pct_of_shares entry = pct))
    \<and> pct_of_shares_outstanding 1050000 1000000 = Inr (Finite 105)
    \<and> float_gt_int (Finite 105) 101
    \<and> pct_of_shares_outstanding 1010000 1000000 = Inr (Finite 101)
    \<and> \<not> float_gt_int (Finite 101) 101"
proof -
  from assms(1) obtain acc unmapped_count where
    loop: "metrics_loop current_holdings = Inr (acc, unmapped_count)"
    and accepted: "set accepted = set acc"
    by (auto simp add: total_holdings_pct_def set_sort_reverse split: sum.splits prod.splits)
  from metrics_loop_accepts [OF loop assms(3,4,5)] obtain pct where
    pct: "pct_of_shares_outstanding (h_shares data) outstanding = Inr pct"
    and kept: "\<not> float_gt_int pct 101 \<longrightarrow>
                (\<exists>entry \<in> set acc. hp_cusip entry = cusip_key \<and> hp_pct_of_shares entry = pct)"
    by blast
  have form: "pct = float_times_100
                     (Finite (round_double (of_int (h_shares data) / of_int outstanding)))"
    using pct
    by (auto simp add: pct_of_shares_outstanding_def int_truediv_def Let_def
        split: sum.splits if_splits)
  have entry: "hp_pct_of_shares entry = pct \<and> \<not> float_gt_int pct 101"
    if "entry \<in> set acc" and "hp_cusip entry = cusip_key" for entry
  proof -
    from metrics_loop_accepted_entry [OF loop that(1)] obtain data' outstanding' where
      d: "(hp_cusip entry, data') \<in> set current_holdings"
      "h_shares_outstanding data' = Some outstanding'"
      "pct_of_shares_outstanding (h_shares data') outstanding' = Inr (hp_pct_of_shares entry)"
      "\<not> float_gt_int (hp_pct_of_shares entry) 101"
      by blast
    have "data' = data"
      using eq_key_imp_eq_value [OF assms(2) _ assms(3)] d(1) that(2) by simp
    then show ?thesis
      using d pct assms(4) by simp
  qed
  have a: "\<exists>pct. pct_of_shares_outstanding (h_shares data) outstanding = Inr pct
           \<and> pct = float_times_100
                     (Finite (round_double (of_int (h_shares data) / of_int outstanding)))
           \<and> ((\<exists>entry \<in> set accepted. hp_cusip entry = cusip_key) \<longleftrightarrow> \<not> float_gt_int pct 101)
           \<and> (\<forall>entry \<in> set accepted. hp_cusip entry = cusip_key \<longrightarrow> hp_pct_of_shares entry = pct)"
    unfolding accepted using pct form kept entry by (intro exI [of _ pct]) blast
  have b: "float_gt_int (Finite 105) 101" "\<not> float_gt_int (Finite 101) 101"
    by (simp_all add: float_gt_int_def)
  show ?thesis
    by (intro conjI a pct_105 pct_101 b)
qed

theorem ownership_cap_spec_witness:
  "total_holdings_pct cap_sample
     = Inr [\<lparr>hp_cusip = ''222222222'', hp_name = ''AT THE CAP INC'', hp_shares = 1010000,
           hp_value = 2020000, hp_shares_outstanding = 1000000, hp_pct_of_shares = Finite 101,
           hp_num_holders = 1, hp_holders = [''Institution A''],
           hp_positions = [(''Institution A'',
                            \<lparr>pp_shares = 1010000, pp_value = 2020000,
                             pp_pct_of_company_shares = Finite 101\<rparr>)]\<rparr>]
   \<and> distinct (map fst cap_sample)
   \<and> (''111111111'', snd (hd cap_sample)) \<in> set cap_sample
   \<and> h_shares_outstanding (snd (hd cap_sample)) = Some 1000000
   \<and> (0 :: int) < 1000000
   \<and> (\<exists>pct. pct_of_shares_outstanding (h_shares (snd (hd cap_sample))) 1000000 = Inr pct
         \<and> float_gt_int pct 101)"
proof -
  have d: "distinct (map fst cap_sample)"
    and m: "(''111111111'', snd (hd cap_sample)) \<in> set cap_sample"
    and o: "h_shares_outstanding (snd (hd cap_sample)) = Some 1000000"
    and sh: "h_shares (snd (hd cap_sample)) = 1050000"
    by (simp_all add: cap_sample_def)
  have pos: "(0 :: int) < 1000000" by simp
  note spec = ownership_cap_spec [OF cap_sample_result d m o pos, THEN conjunct1]
  from spec obtain pct where
    p: "pct_of_shares_outstanding (h_shares (snd (hd cap_sample))) 1000000 = Inr pct"
    and iff: "(\<exists>entry \<in> set [\<lparr>hp_cusip = ''222222222'', hp_name = ''AT THE CAP INC'', hp_shares = 1010000,
           hp_value = 2020000, hp_shares_outstanding = 1000000, hp_pct_of_shares = Finite 101,
           hp_num_holders = 1, hp_holders = [''Institution A''],
           hp_positions = [(''Institution A'',
                            \<lparr>pp_shares = 1010000, pp_value = 2020000,
                             pp_pct_of_company_shares = Finite 101\<rparr>)]\<rparr>]. hp_cusip entry = ''111111111'')
          \<longleftrightarrow> \<not> float_gt_int pct 101"
    by (elim exE conjE)
  from iff have "float_gt_int pct 101" by simp
  with p have e: "\<exists>pct. pct_of_shares_outstanding (h_shares (snd (hd cap_sample))) 1000000 = Inr pct
         \<and> float_gt_int pct 101"
    by (intro exI [of _ pct] conjI)
  show ?thesis
    by (intro conjI cap_sample_result d m o pos e)
qed

section \<open>Properties of the quarter-over-quarter comparison\<close>


















section \<open>The prior quarter's data in the comparison\<close>

lemma str_int_2025: "str_int 2025 = ''2025''"
  by code_simp

lemma analyze_holdings_missing: "lookup_attribute ''analyze_holdings'' = Inl (AttributeError ''analyze_holdings'')"
  by (simp add: lookup_attribute_def Filing13FAnalyzer_attributes_def)

lemma marker_Q2_2025:
  "period_marker ''Q2'' 2025 = ''CONFORMED PERIOD OF REPORT:'' @ [char_of (9 :: nat)] @ ''20250630''"
  by (simp add: period_marker_def quarter_end_map_def str_int_2025)

lemma has_filings_sample: "has_filings_for_quarter (w_filings_dir prior_missing_world) ''Q2'' 2025"
  by (simp add: has_filings_for_quarter_def prior_missing_world_def marker_Q2_2025)

text \<open>
  Claim C4, the branch with prior filings. With no output file for the prior quarter and a
  raw filing of that quarter, the method raises \<^verbatim>\<open>AttributeError\<close> at
  \<^verbatim>\<open>prev_analyzer.analyze_holdings()\<close>: it neither writes the prior quarter's file
  nor computes the comparison.
\<close>

theorem prior_quarter_recursion_raises:
  "calculate_quarterly_net_adds prior_missing_world ''Q3'' 2025 [current_sample]
     = Inl (AttributeError ''analyze_holdings'')"
  using has_filings_sample
  by (simp add: calculate_quarterly_net_adds_def quarter_number_Q3 str_int_2
      analyze_holdings_missing prior_missing_world_def)

lemma prior_quarter_without_filings:
  "calculate_quarterly_net_adds nothing_downloaded_world ''Q3'' 2025 current_holdings_pct
     = Inr (Current_unchanged current_holdings_pct)"
  by (simp add: calculate_quarterly_net_adds_def quarter_number_Q3 str_int_2
      nothing_downloaded_world_def has_filings_for_quarter_def)

lemma recursion_always_raises:
  assumes "quarter_number quarter = Inr current_q"
    and "prev_quarter = (if current_q > 1 then ''Q'' @ str_int (current_q - 1) else ''Q4'')"
    and "prev_year = (if current_q > 1 then year else year - 1)"
    and "w_total_holdings_data world (prev_quarter, prev_year) = None"
    and "has_filings_for_quarter (w_filings_dir world) prev_quarter prev_year"
  shows "\<exists>e. calculate_quarterly_net_adds world quarter year current_holdings_pct = Inl e"
  using assms
  by (auto simp add: calculate_quarterly_net_adds_def Let_def analyze_holdings_missing
      split: option.splits)

lemma no_prior_filings_returns_current:
  assumes "quarter_number quarter = Inr current_q"
    and "prev_quarter = (if current_q > 1 then ''Q'' @ str_int (current_q - 1) else ''Q4'')"
    and "prev_year = (if current_q > 1 then year else year - 1)"
    and "w_total_holdings_data world (prev_quarter, prev_year) = None"
    and "\<not> has_filings_for_quarter (w_filings_dir world) prev_quarter prev_year"
  shows "calculate_quarterly_net_adds world quarter year current_holdings_pct
           = Inr (Current_unchanged current_holdings_pct)"
  using assms
  by (auto simp add: calculate_quarterly_net_adds_def Let_def)

section \<open>Properties of the dashboard's staleness filter\<close>

lemma filter_securities_eq:
  "filter_securities stale secs = map (without_stale stale) (filter (survives_filter stale) secs)"
proof (induction secs)
  case Nil
  then show ?case by simp
next
  case (Cons sec rest)
  show ?case
  proof (cases "ds_positions sec")
    case None
    then show ?thesis using Cons.IH by (simp add: survives_filter_def without_stale_def)
  next
    case (Some ps)
    have nonempty: "filter (\<lambda>(k, v). k \<notin> set stale) ps \<noteq> [] \<longleftrightarrow> (\<exists>k \<in> fst ` set ps. k \<notin> set stale)"
      by (force simp add: filter_empty_conv)
    show ?thesis
    proof (cases "ps = []")
      case True
      then show ?thesis using Some Cons.IH by (simp add: survives_filter_def without_stale_def)
    next
      case False
      then show ?thesis
        using Some Cons.IH nonempty
        by (simp add: survives_filter_def without_stale_def Let_def)
    qed
  qed
qed

lemma stale_institutions_iff:
  "inst \<in> set (stale_institutions max_age_days year current_quarter filing_periods) \<longleftrightarrow>
     (\<exists>p. (inst, p) \<in> set filing_periods
          \<and> (fp_year p < year \<or> (fp_year p = year \<and> fp_quarter p < current_quarter))
          \<and> ((year - fp_year p) * 4 + (current_quarter - fp_quarter p)) * 92 > max_age_days)"
  by (auto simp add: stale_institutions_def set_py_set is_stale_def Let_def DAYS_PER_QUARTER_def
      image_iff split: if_splits)

lemma without_stale_positions:
  assumes "ds_positions (without_stale stale sec) = Some ps"
  shows "\<forall>k \<in> fst ` set ps. k \<notin> set stale"
  using assms
  by (cases "ds_positions sec") (auto simp add: without_stale_def split: if_splits)

lemma without_stale_holders: "ds_holders (without_stale stale sec) = ds_holders sec"
  by (cases "ds_positions sec") (simp_all add: without_stale_def)

lemma without_stale_cusip: "ds_cusip (without_stale stale sec) = ds_cusip sec"
  by (cases "ds_positions sec") (simp_all add: without_stale_def)

lemma without_stale_holder_count:
  assumes "ds_positions sec = Some ps" and "ps \<noteq> []"
  shows "ds_holder_count (without_stale stale sec)
           = Some (length (filter (\<lambda>(k, v). k \<notin> set stale) ps))"
    and "ds_positions (without_stale stale sec) = Some (filter (\<lambda>(k, v). k \<notin> set stale) ps)"
  using assms by (simp_all add: without_stale_def)

lemma default_max_age: "max_age_days_of [] = 365"
  by (simp add: max_age_days_of_def get_default_def)


text \<open>
  The filter as the code has it, for a file whose metadata has the key
  \<^verbatim>\<open>institution_breakdown\<close>. An institution is stale exactly when its filing period
  predates the selected quarter and quarters-old times 92 exceeds the configured maximum
  age (365 when the configuration has none). The loaded securities are the securities of
  the file that have no positions at all or keep a position of an institution that is not
  stale, in the order of the file; a kept security that had positions holds exactly its
  positions of institutions that are not stale, and its \<^verbatim>\<open>holder_count\<close> is their
  number; its list \<^verbatim>\<open>holders\<close> is the list of the file. A Q1 2024 filer viewed from
  Q3 2025 is stale under the default, a Q2 2025 filer is not.
\<close>

lemma stale_filter_spec:
  assumes "files (quarter, year) = Some data"
    and "quarter_number quarter = Inr current_quarter"
    and "hf_institution_breakdown data \<noteq> None"
    and "stale = stale_institutions (max_age_days_of config) year current_quarter (filing_periods_of data)"
  shows "(\<forall>inst. inst \<in> set stale \<longleftrightarrow>
            (\<exists>p. (inst, p) \<in> set (filing_periods_of data)
               \<and> (fp_year p < year \<or> (fp_year p = year \<and> fp_quarter p < current_quarter))
               \<and> ((year - fp_year p) * 4 + (current_quarter - fp_quarter p)) * 92
                    > max_age_days_of config))
    \<and> max_age_days_of [] = 365
    \<and> (\<exists>loaded. load_holdings_data files config quarter year = Inr (Some loaded)
          \<and> lh_securities loaded
              = map (without_stale stale) (filter (survives_filter stale) (hf_securities data))
          \<and> lh_excluded_stale loaded = int (card (set stale)))
    \<and> (\<forall>sec ps. ds_positions sec = Some ps \<and> ps \<noteq> [] \<longrightarrow>
          ds_positions (without_stale stale sec) = Some (filter (\<lambda>(k, v). k \<notin> set stale) ps)
          \<and> ds_holder_count (without_stale stale sec)
              = Some (length (filter (\<lambda>(k, v). k \<notin> set stale) ps))
          \<and> (survives_filter stale sec \<longleftrightarrow> (\<exists>k \<in> fst ` set ps. k \<notin> set stale)))
    \<and> (\<forall>sec. ds_positions sec = None \<or> ds_positions sec = Some [] \<longrightarrow>
          survives_filter stale sec \<and> without_stale stale sec = sec)
    \<and> (\<forall>sec. ds_holders (without_stale stale sec) = ds_holders sec)
    \<and> is_stale 365 2025 3 \<lparr>fp_year = 2024, fp_quarter = 1\<rparr>
    \<and> \<not> is_stale 365 2025 3 \<lparr>fp_year = 2025, fp_quarter = 2\<rparr>"
proof -
  have a: "\<forall>inst. inst \<in> set stale \<longleftrightarrow>
            (\<exists>p. (inst, p) \<in> set (filing_periods_of data)
               \<and> (fp_year p < year \<or> (fp_year p = year \<and> fp_quarter p < current_quarter))
               \<and> ((year - fp_year p) * 4 + (current_quarter - fp_quarter p)) * 92
                    > max_age_days_of config)"
    unfolding assms(4) by (simp only: stale_institutions_iff) simp
  have "distinct stale"
    unfolding assms(4) stale_institutions_def by (rule distinct_py_set)
  then have len: "length stale = card (set stale)"
    by (simp add: distinct_card)
  have c: "\<exists>loaded. load_holdings_data files config quarter year = Inr (Some loaded)
          \<and> lh_securities loaded
              = map (without_stale stale) (filter (survives_filter stale) (hf_securities data))
          \<and> lh_excluded_stale loaded = int (card (set stale))"
    using assms(1,2,3) len
    by (simp add: load_holdings_data_def Let_def filter_securities_eq assms(4))
  have d: "\<forall>sec ps. ds_positions sec = Some ps \<and> ps \<noteq> [] \<longrightarrow>
          ds_positions (without_stale stale sec) = Some (filter (\<lambda>(k, v). k \<notin> set stale) ps)
          \<and> ds_holder_count (without_stale stale sec)
              = Some (length (filter (\<lambda>(k, v). k \<notin> set stale) ps))
          \<and> (survives_filter stale sec \<longleftrightarrow> (\<exists>k \<in> fst ` set ps. k \<notin> set stale))"
    by (simp add: without_stale_def survives_filter_def)
  have e: "\<forall>sec. ds_positions sec = None \<or> ds_positions sec = Some [] \<longrightarrow>
          survives_filter stale sec \<and> without_stale stale sec = sec"
    by (auto simp add: without_stale_def survives_filter_def)
  have f: "\<forall>sec. ds_holders (without_stale stale sec) = ds_holders sec"
    by (simp add: without_stale_holders)
  have g: "is_stale 365 2025 3 \<lparr>fp_year = 2024, fp_quarter = 1\<rparr>"
    "\<not> is_stale 365 2025 3 \<lparr>fp_year = 2025, fp_quarter = 2\<rparr>"
    by (simp_all add: is_stale_def DAYS_PER_QUARTER_def)
  show ?thesis
    using a default_max_age c d e f g by blast
qed

lemma dashboard_sample_stale:
  "stale_institutions (max_age_days_of []) 2025 3 (filing_periods_of dashboard_sample) = [''Old Filer'']"
  by (simp add: stale_institutions_def default_max_age dashboard_sample_def is_stale_def
      DAYS_PER_QUARTER_def py_set_def filing_periods_of_def)

lemma dashboard_sample_loaded:
  "load_holdings_data dashboard_files [] ''Q3'' 2025 =
     Inr (Some \<lparr>lh_securities =
                   [\<lparr>ds_cusip = ''037833100'', ds_num_holders = 2,
                     ds_holders = [''Old Filer'', ''Recent Filer''],
                     ds_positions = Some [(''Recent Filer'', \<lparr>pp_shares = 300, pp_value = 3000,
                                                   pp_pct_of_company_shares = Finite 3\<rparr>)],
                     ds_holder_count = Some 1\<rparr>],
                 lh_filtered_total = 1, lh_filtered_current_quarter = 0, lh_excluded_stale = 1\<rparr>)"
  by (simp add: load_holdings_data_def dashboard_files_def quarter_number_Q3 Let_def
      dashboard_sample_stale)
     (simp add: dashboard_sample_def filing_periods_of_def)

lemma stale_filter_spec_sample:
  "dashboard_files (''Q3'', 2025) = Some dashboard_sample
   \<and> quarter_number ''Q3'' = Inr 3
   \<and> ''Old Filer'' \<in> set (stale_institutions (max_age_days_of []) 2025 3
                              (filing_periods_of dashboard_sample))
   \<and> ''Recent Filer'' \<notin> set (stale_institutions (max_age_days_of []) 2025 3
                              (filing_periods_of dashboard_sample))
   \<and> (\<exists>loaded. load_holdings_data dashboard_files [] ''Q3'' 2025 = Inr (Some loaded)
         \<and> lh_securities loaded
             = map (without_stale (stale_institutions (max_age_days_of []) 2025 3
                                     (filing_periods_of dashboard_sample)))
                 (filter (survives_filter (stale_institutions (max_age_days_of []) 2025 3
                                     (filing_periods_of dashboard_sample)))
                    (hf_securities dashboard_sample))
         \<and> lh_excluded_stale loaded = 1)"
proof -
  have the_file: "dashboard_files (''Q3'', 2025) = Some dashboard_sample"
    by (simp add: dashboard_files_def)
  have breakdown: "hf_institution_breakdown dashboard_sample \<noteq> None"
    by (simp add: dashboard_sample_def)
  note spec = stale_filter_spec [where files = dashboard_files and quarter = "''Q3''"
      and year = 2025 and data = dashboard_sample and config = "[]",
      OF the_file quarter_number_Q3 breakdown refl]
  let ?stale = "stale_institutions (max_age_days_of []) 2025 3 (filing_periods_of dashboard_sample)"
  from spec obtain loaded where loaded:
    "load_holdings_data dashboard_files [] ''Q3'' 2025 = Inr (Some loaded)"
    "lh_securities loaded
       = map (without_stale ?stale) (filter (survives_filter ?stale) (hf_securities dashboard_sample))"
    "lh_excluded_stale loaded = int (card (set ?stale))"
    by blast
  have one: "int (card (set ?stale)) = 1"
    by (simp only: dashboard_sample_stale) simp
  have old: "''Old Filer'' \<in> set ?stale" and recent: "''Recent Filer'' \<notin> set ?stale"
    by (simp_all only: dashboard_sample_stale) simp_all
  have last: "\<exists>loaded. load_holdings_data dashboard_files [] ''Q3'' 2025 = Inr (Some loaded)
         \<and> lh_securities loaded
             = map (without_stale ?stale) (filter (survives_filter ?stale) (hf_securities dashboard_sample))
         \<and> lh_excluded_stale loaded = 1"
    using loaded one by (intro exI [of _ loaded]) simp
  show ?thesis
    by (intro conjI the_file quarter_number_Q3 old recent last)
qed

text \<open>
  Claim C5. Viewed from Q3 2025 under the default maximum age, with one institution that
  last filed for Q1 2024 and one that filed for Q2 2025: the stale institution's position
  is removed and the security held only by it is dropped, but the security held by both
  still lists the stale institution among its \<^verbatim>\<open>holders\<close> and still has
  \<^verbatim>\<open>num_holders\<close> 2; only the key \<^verbatim>\<open>holder_count\<close> holds the number of
  remaining positions. The holder set and the holder count the dashboard reads are not
  recomputed.
\<close>

theorem holder_set_not_recomputed:
  "load_holdings_data dashboard_files [] ''Q3'' 2025 =
     Inr (Some \<lparr>lh_securities =
                   [\<lparr>ds_cusip = ''037833100'', ds_num_holders = 2,
                     ds_holders = [''Old Filer'', ''Recent Filer''],
                     ds_positions = Some [(''Recent Filer'', \<lparr>pp_shares = 300, pp_value = 3000,
                                                   pp_pct_of_company_shares = Finite 3\<rparr>)],
                     ds_holder_count = Some 1\<rparr>],
                 lh_filtered_total = 1, lh_filtered_current_quarter = 0, lh_excluded_stale = 1\<rparr>)
   \<and> ''Old Filer'' \<in> set (stale_institutions (max_age_days_of []) 2025 3
                              (filing_periods_of dashboard_sample))
   \<and> set [''Old Filer'', ''Recent Filer''] \<noteq> fst ` set [(''Recent Filer'', \<lparr>pp_shares = 300, pp_value = 3000,
                                                   pp_pct_of_company_shares = Finite (3 :: rat)\<rparr>)]"
  by (simp add: dashboard_sample_loaded dashboard_sample_stale)

lemma missing_breakdown_raises:
  "load_holdings_data no_breakdown_files [] ''Q3'' 2025 = Inl (KeyError ''institution_breakdown'')"
  by (simp add: load_holdings_data_def no_breakdown_files_def quarter_number_Q3 Let_def)

section \<open>Properties of the CUSIP to ticker mapper\<close>

lemma merge_manual_mappings_apply:
  "merge_manual_mappings manual cache k =
     (case cache k of Some t \<Rightarrow> Some t | None \<Rightarrow> map_of manual k)"
  unfolding merge_manual_mappings_def
proof (induction manual arbitrary: cache)
  case Nil
  then show ?case by (simp split: option.splits)
next
  case (Cons entry manual)
  obtain cusip ticker where entry: "entry = (cusip, ticker)" by (cases entry)
  show ?case
    unfolding entry by (simp add: Cons.IH split: option.splits)
qed

lemma dom_merge_manual_mappings:
  "dom (merge_manual_mappings manual cache) = dom cache \<union> fst ` set manual"
proof -
  have "dom (merge_manual_mappings manual cache) = dom cache \<union> dom (map_of manual)"
    by (auto simp add: merge_manual_mappings_apply dom_def split: option.splits)
  then show ?thesis by (simp add: dom_map_of_conv_image_fst)
qed

lemma requests_sent_bumps [simp]:
  "requests_sent (bump_newly_mapped m) = requests_sent m"
  "requests_sent (bump_failed_mappings m) = requests_sent m"
  "requests_sent (bump_api_calls m) = requests_sent m"
  "requests_sent (bump_api_errors m) = requests_sent m"
  by (simp_all add: bump_newly_mapped_def bump_failed_mappings_def bump_api_calls_def
      bump_api_errors_def)

lemma requests_sent_process_items:
  "requests_sent (fst (process_items batch items m)) = requests_sent m"
  by (induction batch items m rule: process_items.induct)
     (auto split: option.splits)

lemma requests_sent_batch_body:
  "requests_sent (snd (batch_body service unmapped batch_num m))
     = requests_sent m @ [map fst (take batch_size (drop (nat batch_num) unmapped))]"
proof -
  have "requests_sent m3 = requests_sent m2" if "process_items batch data m2 = (m3, raised)"
    for batch data m2 m3 raised
    using requests_sent_process_items [of batch data m2] that by simp
  then show ?thesis
    by (auto simp add: batch_body_def Let_def split: post_outcome.splits option.splits prod.splits)
qed

lemma requests_sent_batch_loop:
  "requests_sent (batch_loop service unmapped batch_nums m)
     = requests_sent m
       @ map (\<lambda>batch_num. map fst (take batch_size (drop (nat batch_num) unmapped))) batch_nums"
proof (induction batch_nums arbitrary: m)
  case Nil
  then show ?case by simp
next
  case (Cons batch_num rest)
  obtain b m' where body: "batch_body service unmapped batch_num m = (b, m')"
    by (cases "batch_body service unmapped batch_num m")
  have "requests_sent m' = requests_sent m @ [map fst (take batch_size (drop (nat batch_num) unmapped))]"
    using requests_sent_batch_body [of service unmapped batch_num m] body by simp
  then show ?case
    using body by (simp add: Cons.IH)
qed


lemma requests_sent_map_cusips_via_api:
  "requests_sent (map_cusips_via_api service m)
     = requests_sent m
       @ map (\<lambda>batch_num. map fst (take batch_size (drop (nat batch_num) (unmapped_of m))))
           (if unmapped_of m = [] then [] else py_range (length (unmapped_of m)) batch_size)"
  by (simp add: map_cusips_via_api_def Let_def requests_sent_batch_loop)

lemma py_range_one: "py_range (Suc 0) 10 = [0]"
  by (simp add: py_range_def)

text \<open>
  Claim C6. With one unmapped CUSIP and a service that answers the first call with status
  429 and would answer any later call with a ticker, the mapper sleeps 60 seconds once,
  sends exactly one request and ends with the CUSIP unmapped: the batch is not retried.
\<close>

theorem rate_limited_batch_is_skipped:
  "requests_sent (mapper_run rate_limited_once Map.empty [] [(''037833100'', ''APPLE INC'')])
     = [[''037833100'']]
   \<and> sleeps_60 (mapper_run rate_limited_once Map.empty [] [(''037833100'', ''APPLE INC'')]) = 1
   \<and> cusip_ticker_cache (mapper_run rate_limited_once Map.empty [] [(''037833100'', ''APPLE INC'')])
        ''037833100'' = None
   \<and> rate_limited_once 1 [''037833100''] = Response 200 (Some [Some [Some ''AAPL'']])"
  by (simp add: mapper_run_def CUSIPMapper_init_def merge_manual_mappings_def map_cusips_via_api_def
      unmapped_of_def py_range_one Let_def batch_body_def rate_limited_once_def bump_api_calls_def
      batch_size_def)

text \<open>
  Claim C7, as the code has it. After \<^verbatim>\<open>__init__\<close> the cache maps a CUSIP of the
  cached file to its cached ticker and any other CUSIP of the manual file to its manual
  ticker; no request has been sent by then. Whatever the service answers, every CUSIP of
  every request sent afterwards is a CUSIP found in the filings that is neither in the
  cached file nor in the manual file.
\<close>

theorem manual_mappings_merge_spec:
  "(\<forall>cusip. cusip_ticker_cache (CUSIPMapper_init cached manual) cusip
              = (case cached cusip of Some ticker \<Rightarrow> Some ticker | None \<Rightarrow> map_of manual cusip))
   \<and> dom (cusip_ticker_cache (CUSIPMapper_init cached manual)) = dom cached \<union> fst ` set manual
   \<and> requests_sent (CUSIPMapper_init cached manual) = []
   \<and> (\<forall>request \<in> set (requests_sent (mapper_run service cached manual collected)).
         \<forall>cusip \<in> set request.
           cusip \<in> fst ` set collected \<and> cusip \<notin> dom cached \<and> cusip \<notin> fst ` set manual)"
proof -
  let ?m = "(CUSIPMapper_init cached manual)\<lparr>all_cusips := collected\<rparr>"
  have cache: "cusip_ticker_cache ?m = merge_manual_mappings manual cached"
    by (simp add: CUSIPMapper_init_def)
  have unmapped: "fst ` set (unmapped_of ?m) \<subseteq> fst ` set collected - (dom cached \<union> fst ` set manual)"
  proof
    fix c assume "c \<in> fst ` set (unmapped_of ?m)"
    then obtain n where "(c, n) \<in> set collected" and "cusip_ticker_cache ?m c = None"
      by (auto simp add: unmapped_of_def CUSIPMapper_init_def)
    then have "c \<notin> dom (merge_manual_mappings manual cached)" and "c \<in> fst ` set collected"
      using cache by (force simp add: dom_def)+
    then show "c \<in> fst ` set collected - (dom cached \<union> fst ` set manual)"
      by (simp add: dom_merge_manual_mappings)
  qed
  have sent: "cusip \<in> fst ` set (unmapped_of ?m)"
    if "request \<in> set (requests_sent (mapper_run service cached manual collected))"
      and "cusip \<in> set request" for request cusip
  proof -
    let ?batch = "\<lambda>batch_num. map fst (take batch_size (drop (nat batch_num) (unmapped_of ?m)))"
    let ?nums = "if unmapped_of ?m = [] then [] else py_range (length (unmapped_of ?m)) batch_size"
    have "requests_sent ?m = []" by (simp add: CUSIPMapper_init_def)
    then have "requests_sent (mapper_run service cached manual collected) = map ?batch ?nums"
      unfolding mapper_run_def requests_sent_map_cusips_via_api by simp
    then have "request \<in> ?batch ` set ?nums"
      using that(1) by simp
    then obtain batch_num where
      "request = map fst (take batch_size (drop (nat batch_num) (unmapped_of ?m)))"
      by blast
    then have "set request \<subseteq> fst ` set (unmapped_of ?m)"
      by (auto dest!: in_set_takeD in_set_dropD)
    then show ?thesis using that(2) by blast
  qed
  have a: "\<forall>cusip. cusip_ticker_cache (CUSIPMapper_init cached manual) cusip
              = (case cached cusip of Some ticker \<Rightarrow> Some ticker | None \<Rightarrow> map_of manual cusip)"
    by (simp add: CUSIPMapper_init_def merge_manual_mappings_apply)
  have b: "dom (cusip_ticker_cache (CUSIPMapper_init cached manual)) = dom cached \<union> fst ` set manual"
    by (simp add: CUSIPMapper_init_def dom_merge_manual_mappings)
  have c: "requests_sent (CUSIPMapper_init cached manual) = []"
    by (simp add: CUSIPMapper_init_def)
  have d: "\<forall>request \<in> set (requests_sent (mapper_run service cached manual collected)).
         \<forall>cusip \<in> set request.
           cusip \<in> fst ` set collected \<and> cusip \<notin> dom cached \<and> cusip \<notin> fst ` set manual"
    using sent unmapped by blast
  show ?thesis using a b c d by blast
qed

lemma sample_run_requests:
  "requests_sent (mapper_run rate_limited_once [''594918104'' \<mapsto> ''MSFT'']
                    [(''037833100'', ''AAPL'')]
                    [(''594918104'', ''MICROSOFT CORP''), (''037833100'', ''APPLE INC''),
                     (''67066G104'', ''NVIDIA CORP'')])
     = [[''67066G104'']]"
  by (simp add: mapper_run_def CUSIPMapper_init_def merge_manual_mappings_def map_cusips_via_api_def
      unmapped_of_def py_range_one Let_def batch_body_def rate_limited_once_def bump_api_calls_def
      batch_size_def)

theorem manual_mappings_merge_spec_witness:
  "[''67066G104''] \<in> set (requests_sent (mapper_run rate_limited_once [''594918104'' \<mapsto> ''MSFT'']
                    [(''037833100'', ''AAPL'')]
                    [(''594918104'', ''MICROSOFT CORP''), (''037833100'', ''APPLE INC''),
                     (''67066G104'', ''NVIDIA CORP'')]))
   \<and> ''67066G104'' \<in> set [''67066G104'']
   \<and> ''67066G104'' \<notin> dom [''594918104'' \<mapsto> ''MSFT'']
   \<and> ''67066G104'' \<notin> fst ` set [(''037833100'', ''AAPL'')]
   \<and> cusip_ticker_cache (CUSIPMapper_init [''594918104'' \<mapsto> ''MSFT''] [(''037833100'', ''AAPL'')])
        ''037833100'' = Some ''AAPL''"
proof -
  note spec = manual_mappings_merge_spec [of "[''594918104'' \<mapsto> ''MSFT'']"
      "[(''037833100'', ''AAPL'')]" rate_limited_once
      "[(''594918104'', ''MICROSOFT CORP''), (''037833100'', ''APPLE INC''),
        (''67066G104'', ''NVIDIA CORP'')]"]
  have sent: "[''67066G104''] \<in> set (requests_sent (mapper_run rate_limited_once [''594918104'' \<mapsto> ''MSFT'']
                    [(''037833100'', ''AAPL'')]
                    [(''594918104'', ''MICROSOFT CORP''), (''037833100'', ''APPLE INC''),
                     (''67066G104'', ''NVIDIA CORP'')]))"
    by (simp only: sample_run_requests) simp
  from spec sent have "''67066G104'' \<notin> dom [''594918104'' \<mapsto> ''MSFT'']
      \<and> ''67066G104'' \<notin> fst ` set [(''037833100'', ''AAPL'')]"
    by fastforce
  moreover from spec have "cusip_ticker_cache (CUSIPMapper_init [''594918104'' \<mapsto> ''MSFT''] [(''037833100'', ''AAPL'')])
        ''037833100'' = Some ''AAPL''"
    by simp
  ultimately show ?thesis using sent by simp
qed

text \<open>
  Claim C7 as stated fails: for a CUSIP in both files the cached ticker stays, the manual
  one is not taken.
\<close>

theorem cached_ticker_wins_over_manual:
  "cusip_ticker_cache (CUSIPMapper_init [''037833100'' \<mapsto> ''APPL''] [(''037833100'', ''AAPL'')])
     ''037833100'' = Some ''APPL''
   \<and> map_of [(''037833100'', ''AAPL'')] ''037833100'' = Some ''AAPL''
   \<and> ''APPL'' \<noteq> ''AAPL''"
  by (simp add: CUSIPMapper_init_def merge_manual_mappings_def)

section \<open>Properties of the configuration loader\<close>

lemma map_of_dict_set: "map_of (dict_set k v d) k' = (if k' = k then Some v else map_of d k')"
  by (induction d) auto

lemma override_user_agent_ok:
  assumes "user_agent_is_object config"
  shows "\<exists>config'. override_user_agent field v config = Inr config'
           \<and> user_agent_is_object config'
           \<and> (\<forall>g. user_agent_field g config'
                     = (if g = field then Some (JStr v) else user_agent_field g config))
           \<and> (\<forall>k. k \<noteq> ''user_agent'' \<longrightarrow> map_of config' k = map_of config k)"
proof (cases "map_of config ''user_agent''")
  case None
  let ?c = "dict_set ''user_agent'' (JObj (dict_set field (JStr v) []))
              (dict_set ''user_agent'' (JObj []) config)"
  have "override_user_agent field v config = Inr ?c"
    using None by (simp add: override_user_agent_def map_of_dict_set)
  moreover have "user_agent_is_object ?c"
    by (simp add: user_agent_is_object_def map_of_dict_set)
  moreover have "\<forall>g. user_agent_field g ?c = (if g = field then Some (JStr v) else user_agent_field g config)"
    using None by (simp add: user_agent_field_def map_of_dict_set)
  moreover have "\<forall>k. k \<noteq> ''user_agent'' \<longrightarrow> map_of ?c k = map_of config k"
    by (simp add: map_of_dict_set)
  ultimately show ?thesis by (intro exI [of _ ?c] conjI)
next
  case (Some ua)
  then obtain items where ua: "ua = JObj items"
    using assms by (cases ua) (simp_all add: user_agent_is_object_def)
  let ?c = "dict_set ''user_agent'' (JObj (dict_set field (JStr v) items)) config"
  have "override_user_agent field v config = Inr ?c"
    using Some ua by (simp add: override_user_agent_def)
  moreover have "user_agent_is_object ?c"
    by (simp add: user_agent_is_object_def map_of_dict_set)
  moreover have "\<forall>g. user_agent_field g ?c = (if g = field then Some (JStr v) else user_agent_field g config)"
    using Some ua by (simp add: user_agent_field_def map_of_dict_set)
  moreover have "\<forall>k. k \<noteq> ''user_agent'' \<longrightarrow> map_of ?c k = map_of config k"
    by (simp add: map_of_dict_set)
  ultimately show ?thesis by (intro exI [of _ ?c] conjI)
qed

lemma email_check:
  assumes "user_agent_is_object config"
  shows "(case map_of config ''user_agent'' of
                  None \<Rightarrow> Inl ValueError
                | Some (JObj user_agent) \<Rightarrow>
                    (case map_of user_agent ''email'' of
                       None \<Rightarrow> Inl ValueError
                     | Some email \<Rightarrow> if truthy email then Inr config else Inl ValueError)
                | Some _ \<Rightarrow> Inl (AttributeError ''get''))
         = (case user_agent_field ''email'' config of
              None \<Rightarrow> Inl ValueError
            | Some email \<Rightarrow> if truthy email then Inr config else Inl ValueError)"
  using assms
  by (auto simp add: user_agent_is_object_def user_agent_field_def split: option.splits json.splits)

lemma override_step:
  assumes "user_agent_is_object config"
  shows "\<exists>config'.
      (case environ variable of None \<Rightarrow> Inr config | Some v \<Rightarrow> override_user_agent field v config)
         = Inr config'
      \<and> user_agent_is_object config'
      \<and> (\<forall>g. user_agent_field g config'
              = (if g = field then resolved_field environ variable field config
                 else user_agent_field g config))
      \<and> (\<forall>k. k \<noteq> ''user_agent'' \<longrightarrow> map_of config' k = map_of config k)"
proof (cases "environ variable")
  case None
  then show ?thesis
    using assms by (intro exI [of _ config]) (simp add: resolved_field_def)
next
  case (Some v)
  from override_user_agent_ok [OF assms, where field = field and v = v] obtain c where
    "override_user_agent field v config = Inr c" "user_agent_is_object c"
    "\<forall>g. user_agent_field g c = (if g = field then Some (JStr v) else user_agent_field g config)"
    "\<forall>k. k \<noteq> ''user_agent'' \<longrightarrow> map_of c k = map_of config k"
    by blast
  then show ?thesis
    using Some by (intro exI [of _ c]) (simp add: resolved_field_def)
qed

lemma load_config_with_env_result:
  assumes "user_agent_is_object config"
  shows "\<exists>config'.
    load_config_with_env environ config
       = (case resolved_field environ ''SEC_USER_EMAIL'' ''email'' config of
            None \<Rightarrow> Inl ValueError
          | Some email \<Rightarrow> if truthy email then Inr config' else Inl ValueError)
    \<and> user_agent_field ''email'' config' = resolved_field environ ''SEC_USER_EMAIL'' ''email'' config
    \<and> user_agent_field ''name'' config' = resolved_field environ ''SEC_USER_NAME'' ''name'' config
    \<and> (\<forall>k. k \<noteq> ''user_agent'' \<longrightarrow> map_of config' k = map_of config k)
    \<and> (\<forall>f. f \<noteq> ''name'' \<and> f \<noteq> ''email'' \<longrightarrow> user_agent_field f config' = user_agent_field f config)"
proof -
  from override_step [OF assms, where environ = environ and variable = "''SEC_USER_NAME''"
      and field = "''name''"]
  obtain config1 where c1: "(case environ ''SEC_USER_NAME'' of
              None \<Rightarrow> Inr config
            | Some v \<Rightarrow> override_user_agent ''name'' v config) = Inr config1"
    and wf1: "user_agent_is_object config1"
    and f1: "\<forall>g. user_agent_field g config1
              = (if g = ''name'' then resolved_field environ ''SEC_USER_NAME'' ''name'' config
                 else user_agent_field g config)"
    and k1: "\<forall>k. k \<noteq> ''user_agent'' \<longrightarrow> map_of config1 k = map_of config k"
    by blast
  from override_step [OF wf1, where environ = environ and variable = "''SEC_USER_EMAIL''"
      and field = "''email''"]
  obtain config2 where c2: "(case environ ''SEC_USER_EMAIL'' of
                   None \<Rightarrow> Inr config1
                 | Some v \<Rightarrow> override_user_agent ''email'' v config1) = Inr config2"
    and wf2: "user_agent_is_object config2"
    and f2: "\<forall>g. user_agent_field g config2
              = (if g = ''email'' then resolved_field environ ''SEC_USER_EMAIL'' ''email'' config1
                 else user_agent_field g config1)"
    and k2: "\<forall>k. k \<noteq> ''user_agent'' \<longrightarrow> map_of config2 k = map_of config1 k"
    by blast
  have r: "resolved_field environ ''SEC_USER_EMAIL'' ''email'' config1
         = resolved_field environ ''SEC_USER_EMAIL'' ''email'' config"
    by (simp add: resolved_field_def f1 split: option.splits)
  have "load_config_with_env environ config
       = (case user_agent_field ''email'' config2 of
              None \<Rightarrow> Inl ValueError
            | Some email \<Rightarrow> if truthy email then Inr config2 else Inl ValueError)"
    by (simp add: load_config_with_env_def c1 c2 email_check [OF wf2])
  then have a: "load_config_with_env environ config
       = (case resolved_field environ ''SEC_USER_EMAIL'' ''email'' config of
            None \<Rightarrow> Inl ValueError
          | Some email \<Rightarrow> if truthy email then Inr config2 else Inl ValueError)"
    by (simp add: f2 r)
  have b: "user_agent_field ''email'' config2 = resolved_field environ ''SEC_USER_EMAIL'' ''email'' config"
    by (simp add: f2 r)
  have c: "user_agent_field ''name'' config2 = resolved_field environ ''SEC_USER_NAME'' ''name'' config"
    by (simp add: f2 f1)
  have d: "\<forall>k. k \<noteq> ''user_agent'' \<longrightarrow> map_of config2 k = map_of config k"
    by (simp add: k1 k2)
  have e: "\<forall>f. f \<noteq> ''name'' \<and> f \<noteq> ''email'' \<longrightarrow> user_agent_field f config2 = user_agent_field f config"
    by (simp add: f1 f2)
  show ?thesis
    by (intro exI [of _ config2] conjI a b c d e)
qed

text \<open>
  Claim C8. For a configuration file whose \<^verbatim>\<open>user_agent\<close>, if present, is an object:
  the loader raises \<^verbatim>\<open>ValueError\<close> exactly when the email that results from the
  overlay (the value of \<^verbatim>\<open>SEC_USER_EMAIL\<close> when the variable is set, the file's
  \<^verbatim>\<open>user_agent.email\<close> otherwise) is absent or empty, and it raises nothing else; in
  particular a set variable decides alone, by being empty or not. When the email is
  resolvable the loader returns a configuration whose \<^verbatim>\<open>user_agent.name\<close> and
  \<^verbatim>\<open>user_agent.email\<close> are the overlaid values and whose other keys are those of
  the file.
\<close>

theorem load_config_with_env_spec:
  assumes "user_agent_is_object config"
  shows "(load_config_with_env environ config = Inl ValueError \<longleftrightarrow>
            (\<forall>email. resolved_field environ ''SEC_USER_EMAIL'' ''email'' config = Some email
                     \<longrightarrow> \<not> truthy email))
    \<and> (\<forall>e. load_config_with_env environ config = Inl e \<longrightarrow> e = ValueError)
    \<and> (\<forall>v. environ ''SEC_USER_EMAIL'' = Some v \<longrightarrow>
           (load_config_with_env environ config = Inl ValueError \<longleftrightarrow> v = []))
    \<and> ((\<exists>email. resolved_field environ ''SEC_USER_EMAIL'' ''email'' config = Some email \<and> truthy email)
         \<longrightarrow> (\<exists>config'. load_config_with_env environ config = Inr config'
                \<and> user_agent_field ''email'' config'
                    = resolved_field environ ''SEC_USER_EMAIL'' ''email'' config
                \<and> user_agent_field ''name'' config'
                    = resolved_field environ ''SEC_USER_NAME'' ''name'' config
                \<and> (\<forall>k. k \<noteq> ''user_agent'' \<longrightarrow> map_of config' k = map_of config k)
                \<and> (\<forall>f. f \<noteq> ''name'' \<and> f \<noteq> ''email''
                        \<longrightarrow> user_agent_field f config' = user_agent_field f config)))"
proof -
  from load_config_with_env_result [OF assms, where environ = environ]
  obtain config' where
    r: "load_config_with_env environ config
       = (case resolved_field environ ''SEC_USER_EMAIL'' ''email'' config of
            None \<Rightarrow> Inl ValueError
          | Some email \<Rightarrow> if truthy email then Inr config' else Inl ValueError)"
    and fields: "user_agent_field ''email'' config' = resolved_field environ ''SEC_USER_EMAIL'' ''email'' config"
      "user_agent_field ''name'' config' = resolved_field environ ''SEC_USER_NAME'' ''name'' config"
      "\<forall>k. k \<noteq> ''user_agent'' \<longrightarrow> map_of config' k = map_of config k"
      "\<forall>f. f \<noteq> ''name'' \<and> f \<noteq> ''email'' \<longrightarrow> user_agent_field f config' = user_agent_field f config"
    by blast
  have a: "load_config_with_env environ config = Inl ValueError \<longleftrightarrow>
            (\<forall>email. resolved_field environ ''SEC_USER_EMAIL'' ''email'' config = Some email
                     \<longrightarrow> \<not> truthy email)"
    unfolding r by (simp split: option.splits)
  have b: "\<forall>e. load_config_with_env environ config = Inl e \<longrightarrow> e = ValueError"
    unfolding r by (simp split: option.splits)
  have c: "\<forall>v. environ ''SEC_USER_EMAIL'' = Some v \<longrightarrow>
           (load_config_with_env environ config = Inl ValueError \<longleftrightarrow> v = [])"
    unfolding a by (simp add: resolved_field_def)
  have d: "(\<exists>email. resolved_field environ ''SEC_USER_EMAIL'' ''email'' config = Some email \<and> truthy email)
         \<longrightarrow> (\<exists>config'. load_config_with_env environ config = Inr config'
                \<and> user_agent_field ''email'' config'
                    = resolved_field environ ''SEC_USER_EMAIL'' ''email'' config
                \<and> user_agent_field ''name'' config'
                    = resolved_field environ ''SEC_USER_NAME'' ''name'' config
                \<and> (\<forall>k. k \<noteq> ''user_agent'' \<longrightarrow> map_of config' k = map_of config k)
                \<and> (\<forall>f. f \<noteq> ''name'' \<and> f \<noteq> ''email''
                        \<longrightarrow> user_agent_field f config' = user_agent_field f config))"
  proof
    assume "\<exists>email. resolved_field environ ''SEC_USER_EMAIL'' ''email'' config = Some email \<and> truthy email"
    then have "load_config_with_env environ config = Inr config'"
      unfolding r by auto
    then show "\<exists>config'. load_config_with_env environ config = Inr config'
                \<and> user_agent_field ''email'' config'
                    = resolved_field environ ''SEC_USER_EMAIL'' ''email'' config
                \<and> user_agent_field ''name'' config'
                    = resolved_field environ ''SEC_USER_NAME'' ''name'' config
                \<and> (\<forall>k. k \<noteq> ''user_agent'' \<longrightarrow> map_of config' k = map_of config k)
                \<and> (\<forall>f. f \<noteq> ''name'' \<and> f \<noteq> ''email''
                        \<longrightarrow> user_agent_field f config' = user_agent_field f config)"
      using fields by (intro exI [of _ config']) simp
  qed
  show ?thesis by (intro conjI a b c d)
qed

lemma config_sample_is_object: "user_agent_is_object config_sample"
  by (simp add: user_agent_is_object_def config_sample_def)

theorem load_config_with_env_spec_witness:
  "user_agent_is_object config_sample
   \<and> load_config_with_env Map.empty config_sample = Inl ValueError
   \<and> resolved_field [''SEC_USER_EMAIL'' \<mapsto> ''analyst@example.org''] ''SEC_USER_EMAIL'' ''email''
        config_sample = Some (JStr ''analyst@example.org'')
   \<and> truthy (JStr ''analyst@example.org'')
   \<and> (\<exists>config'. load_config_with_env [''SEC_USER_EMAIL'' \<mapsto> ''analyst@example.org''] config_sample
                   = Inr config'
         \<and> user_agent_field ''email'' config' = Some (JStr ''analyst@example.org'')
         \<and> user_agent_field ''name'' config' = Some (JStr ''Analyst''))"
proof -
  note unset = load_config_with_env_spec [OF config_sample_is_object, where environ = Map.empty]
  note set = load_config_with_env_spec [OF config_sample_is_object,
      where environ = "[''SEC_USER_EMAIL'' \<mapsto> ''analyst@example.org'']"]
  have file_email: "resolved_field Map.empty ''SEC_USER_EMAIL'' ''email'' config_sample = Some (JStr [])"
    by (simp add: resolved_field_def user_agent_field_def config_sample_def)
  have a: "load_config_with_env Map.empty config_sample = Inl ValueError"
    unfolding unset [THEN conjunct1] by (simp add: file_email)
  have env_email: "resolved_field [''SEC_USER_EMAIL'' \<mapsto> ''analyst@example.org''] ''SEC_USER_EMAIL''
        ''email'' config_sample = Some (JStr ''analyst@example.org'')"
    by (simp add: resolved_field_def)
  have file_name: "resolved_field [''SEC_USER_EMAIL'' \<mapsto> ''analyst@example.org''] ''SEC_USER_NAME''
        ''name'' config_sample = Some (JStr ''Analyst'')"
    by (simp add: resolved_field_def user_agent_field_def config_sample_def)
  have t: "truthy (JStr ''analyst@example.org'')" by simp
  have ex: "\<exists>email. resolved_field [''SEC_USER_EMAIL'' \<mapsto> ''analyst@example.org''] ''SEC_USER_EMAIL''
        ''email'' config_sample = Some email \<and> truthy email"
    using env_email t by (intro exI [of _ "JStr ''analyst@example.org''"] conjI)
  note returned = set [THEN conjunct2, THEN conjunct2, THEN conjunct2, THEN mp, OF ex]
  from returned obtain config' where
    "load_config_with_env [''SEC_USER_EMAIL'' \<mapsto> ''analyst@example.org''] config_sample = Inr config'"
    "user_agent_field ''email'' config'
       = resolved_field [''SEC_USER_EMAIL'' \<mapsto> ''analyst@example.org''] ''SEC_USER_EMAIL'' ''email'' config_sample"
    "user_agent_field ''name'' config'
       = resolved_field [''SEC_USER_EMAIL'' \<mapsto> ''analyst@example.org''] ''SEC_USER_NAME'' ''name'' config_sample"
    by (elim exE conjE)
  then have b: "\<exists>config'. load_config_with_env [''SEC_USER_EMAIL'' \<mapsto> ''analyst@example.org''] config_sample
                   = Inr config'
         \<and> user_agent_field ''email'' config' = Some (JStr ''analyst@example.org'')
         \<and> user_agent_field ''name'' config' = Some (JStr ''Analyst'')"
    by (intro exI [of _ config']) (simp add: env_email file_name)
  show ?thesis
    by (intro conjI config_sample_is_object a env_email t b)
qed

section \<open>Properties of the filing downloader\<close>

text \<open>
  Claim C9. For a CIK that is not in the progress set and a fetch that returns without
  creating a filing directory, the loop records a success (with no filing period), records
  no failure, and adds the CIK to the progress set.
\<close>

theorem empty_fetch_recorded_as_success:
  "successful_downloads (download_quarter_filings nothing_fetched fresh_downloader [''0001067983''])
     = [\<lparr>de_cik = ''0001067983'', de_name = ''BERKSHIRE HATHAWAY INC'', de_filing_period = None,
         de_error = None\<rparr>]
   \<and> failed_downloads (download_quarter_filings nothing_fetched fresh_downloader [''0001067983'']) = []
   \<and> success_count (download_quarter_filings nothing_fetched fresh_downloader [''0001067983'']) = 1
   \<and> failed_count (download_quarter_filings nothing_fetched fresh_downloader [''0001067983'']) = 0
   \<and> ''0001067983'' \<in> downloaded_ciks
         (download_quarter_filings nothing_fetched fresh_downloader [''0001067983''])"
  by (simp add: download_quarter_filings_def reset_tracking_def download_cik_def Let_def
      fresh_downloader_def nothing_fetched_def company_name_of_def)

lemma download_cik_one_outcome:
  "(success_count (download_cik get d cik) + failed_count (download_cik get d cik)
      + skipped_count (download_cik get d cik))
     = success_count d + failed_count d + skipped_count d + 1"
  by (simp add: download_cik_def Let_def split: get_outcome.splits)

lemma download_cik_skip:
  "cik \<in> downloaded_ciks d \<Longrightarrow>
     skipped_count (download_cik get d cik) = skipped_count d + 1
     \<and> success_count (download_cik get d cik) = success_count d
     \<and> failed_count (download_cik get d cik) = failed_count d"
  by (simp add: download_cik_def Let_def)

lemma download_cik_raise:
  "cik \<notin> downloaded_ciks d \<Longrightarrow> get cik = Get_raises message \<Longrightarrow>
     failed_count (download_cik get d cik) = failed_count d + 1
     \<and> success_count (download_cik get d cik) = success_count d
     \<and> downloaded_ciks (download_cik get d cik) = downloaded_ciks d"
  by (simp add: download_cik_def Let_def)

lemma download_cik_return_is_success:
  "cik \<notin> downloaded_ciks d \<Longrightarrow> get cik = Get_returns filing_path \<Longrightarrow>
     success_count (download_cik get d cik) = success_count d + 1
     \<and> failed_count (download_cik get d cik) = failed_count d
     \<and> cik \<in> downloaded_ciks (download_cik get d cik)"
  by (simp add: download_cik_def Let_def)

end
